theory Spec2Isabelle
  imports Complex_Main "HOL-Library.Code_Target_Numeral"
begin

section \<open>Textured model parser: OBJ mesh decoder and PPM image decoder\<close>

text \<open>
  A shallow embedding of \<^verbatim>\<open>OBJMesh.cpp\<close> and \<^verbatim>\<open>TextureLoader.cpp\<close>.
  The repository holds two evolutions of each file. The mesh decoder modelled here
  is the later one, the one \<^verbatim>\<open>main.cpp\<close> calls: \<^verbatim>\<open>ParseVertexIndices\<close> returns
  three indices, the material decoder records a deferred texture path and
  \<^verbatim>\<open>LoadTextures\<close> loads it. Of the earlier one only the index parser is
  modelled. The image decoder is modelled in both evolutions, the one with the
  reversing post-processing pass and the one without.

  C++ behaviour that HOL does not have is written out:
  \<^item> an uncaught exception (\<^verbatim>\<open>std::stoi\<close>, \<^verbatim>\<open>substr\<close>, \<^verbatim>\<open>new[]\<close>) and undefined
    behaviour (an out-of-bounds \<^verbatim>\<open>operator[]\<close>, an index subtraction that
    overflows, a branch on a variable never written) are values of \<open>cpp_error\<close>, and every function that
    can reach one returns \<open>cpp_error + 'a\<close>;
  \<^item> a loop that may run forever returns an \<open>option\<close>, \<open>None\<close> when it does;
  \<^item> \<^verbatim>\<open>size_t\<close> is a \<open>nat\<close> below \<open>2 ^ 64\<close> and \<^verbatim>\<open>unsigned int\<close> a \<open>nat\<close> below
    \<open>2 ^ 32\<close>, with the wrap-around written out; \<^verbatim>\<open>int\<close> is an \<open>int\<close>, its
    subtraction with the overflow checked, its multiplication keeping the low 32
    bits as the compiled program does;
  \<^item> an uninitialised variable holds \<open>Indeterminate\<close>;
  \<^item> \<^verbatim>\<open>float\<close> is a type parameter, and the float reader, the literal \<^verbatim>\<open>0.7f\<close> and
    \<^verbatim>\<open>glm::normalize\<close> are parameters with it; where a property is about the
    length of a vector, \<^verbatim>\<open>float\<close> is the real numbers;
  \<^item> the file system is a map from paths to file contents;
  \<^item> what is written to \<^verbatim>\<open>std::cerr\<close> is a list of \<open>diag\<close> values; the progress
    messages on \<^verbatim>\<open>std::cout\<close>, and the counters kept only to print them, are
    left out.
\<close>

subsection \<open>Errors, diagnostics and indeterminate values\<close>

datatype cpp_error =
    StoiInvalidArgument    \<comment> \<open>\<^verbatim>\<open>std::invalid_argument\<close> thrown by \<^verbatim>\<open>std::stoi\<close>\<close>
  | StoiOutOfRange         \<comment> \<open>\<^verbatim>\<open>std::out_of_range\<close> thrown by \<^verbatim>\<open>std::stoi\<close>\<close>
  | SubstrOutOfRange       \<comment> \<open>\<^verbatim>\<open>std::out_of_range\<close> thrown by \<^verbatim>\<open>substr\<close>\<close>
  | SignedOverflow         \<comment> \<open>undefined behaviour: an \<^verbatim>\<open>int\<close> subtraction out of range\<close>
  | OutOfBoundsAccess      \<comment> \<open>undefined behaviour: \<^verbatim>\<open>operator[]\<close> past the end\<close>
  | BadArrayNewLength      \<comment> \<open>\<^verbatim>\<open>new unsigned char[n]\<close> with negative \<open>n\<close>\<close>
  | IndeterminateRead      \<comment> \<open>undefined behaviour: a branch or a size read from a variable never written\<close>

datatype diag =
    FailedToOpenFile string
  | FailedToOpenMTL string
  | InvalidTexCoordIndex int
  | FailedToLoadTexture string
  | FailedToOpenPPM string
  | InvalidPPMFormat
  | Only8BitSupported
  | ErrorWhileReadingPPM
  | FailedToLoadTextureData
  | OpenGLError

datatype 'a cell = Val 'a | Indeterminate

definition ebind :: "'e + 'a \<Rightarrow> ('a \<Rightarrow> 'e + 'b) \<Rightarrow> 'e + 'b" where
  "ebind m f = (case m of Inl e \<Rightarrow> Inl e | Inr x \<Rightarrow> f x)"

subsection \<open>Machine integers\<close>

definition INT_MAX :: int where "INT_MAX = 2147483647"
definition INT_MIN :: int where "INT_MIN = - 2147483648"

text \<open>\<^verbatim>\<open>a - b\<close> on \<^verbatim>\<open>int\<close>: undefined when the result leaves the type.\<close>

definition int_sub :: "int \<Rightarrow> int \<Rightarrow> cpp_error + int" where
  "int_sub a b = (if a - b < INT_MIN \<or> INT_MAX < a - b then Inl SignedOverflow else Inr (a - b))"

text \<open>
  \<^verbatim>\<open>a * b\<close> on \<^verbatim>\<open>int\<close>. The source checks no product, and the only products are
  those of the image size \<^verbatim>\<open>width * height * 3\<close>, decided by the header of the
  file. A product that leaves the type is undefined behaviour in the language;
  the compiled program multiplies in 32 bits and keeps the low 32 bits of the
  result, in two's complement, and that is what the model computes, so that the
  decoder has a result on every header.
\<close>

definition to_int :: "int \<Rightarrow> int" where
  "to_int v = (v + 2147483648) mod 4294967296 - 2147483648"

definition int_mul :: "int \<Rightarrow> int \<Rightarrow> int" where
  "int_mul a b = to_int (a * b)"

definition SIZE_MOD :: nat where "SIZE_MOD = 18446744073709551616"

definition npos :: nat where "npos = 18446744073709551615"

definition sz_add :: "nat \<Rightarrow> nat \<Rightarrow> nat" where
  "sz_add a b = (a + b) mod SIZE_MOD"

definition sz_sub :: "nat \<Rightarrow> nat \<Rightarrow> nat" where
  "sz_sub a b = (a + SIZE_MOD - b mod SIZE_MOD) mod SIZE_MOD"

text \<open>The conversion of an \<^verbatim>\<open>int\<close> to \<^verbatim>\<open>size_t\<close> in a comparison or an index.\<close>

definition to_size_t :: "int \<Rightarrow> nat" where
  "to_size_t i = nat (i mod int SIZE_MOD)"

subsection \<open>Strings of the standard library\<close>

definition isspace :: "char \<Rightarrow> bool" where
  "isspace c = (c = CHR '' '' \<or> c = CHR 0x09 \<or> c = CHR 0x0A \<or> c = CHR 0x0B
                \<or> c = CHR 0x0C \<or> c = CHR 0x0D)"

definition isdigit :: "char \<Rightarrow> bool" where
  "isdigit c = (48 \<le> (of_char c :: nat) \<and> (of_char c :: nat) \<le> 57)"

definition digit_value :: "char \<Rightarrow> int" where
  "digit_value c = int (of_char c) - 48"

fun digits_value :: "int \<Rightarrow> string \<Rightarrow> int" where
  "digits_value acc [] = acc"
| "digits_value acc (c # cs) = digits_value (acc * 10 + digit_value c) cs"

fun find_from :: "char \<Rightarrow> string \<Rightarrow> nat \<Rightarrow> nat" where
  "find_from c [] i = npos"
| "find_from c (x # xs) i = (if x = c then i else find_from c xs (Suc i))"

text \<open>\<^verbatim>\<open>s.find(c, pos)\<close>: the first index at or after \<open>pos\<close> holding \<open>c\<close>, else \<open>npos\<close>.\<close>

definition str_find :: "string \<Rightarrow> char \<Rightarrow> nat \<Rightarrow> nat" where
  "str_find s c pos = find_from c (drop pos s) pos"

text \<open>\<^verbatim>\<open>s.substr(pos, count)\<close>; the one-argument form has \<open>count = npos\<close>.\<close>

definition substr :: "string \<Rightarrow> nat \<Rightarrow> nat \<Rightarrow> cpp_error + string" where
  "substr s pos count = (if length s < pos then Inl SubstrOutOfRange
                          else Inr (take count (drop pos s)))"

text \<open>
  \<^verbatim>\<open>std::stoi(str)\<close>, base 10: leading white space, an optional sign, then the
  longest run of digits; what follows the digits is ignored.
\<close>

definition stoi :: "string \<Rightarrow> cpp_error + int" where
  "stoi str =
     (let s1 = dropWhile isspace str;
          neg = (s1 \<noteq> [] \<and> hd s1 = CHR ''-'');
          s2 = (if s1 \<noteq> [] \<and> (hd s1 = CHR ''-'' \<or> hd s1 = CHR ''+'') then tl s1 else s1);
          ds = takeWhile isdigit s2;
          v = (if neg then - digits_value 0 ds else digits_value 0 ds)
      in if ds = [] then Inl StoiInvalidArgument
         else if v < INT_MIN \<or> INT_MAX < v then Inl StoiOutOfRange
         else Inr v)"

subsection \<open>The data model of \<^verbatim>\<open>OBJMesh.hpp\<close>\<close>

text \<open>
  \<^verbatim>\<open>float\<close> is a type parameter \<open>'f\<close>: the model never computes with a float, it
  only stores what the library hands back. A \<^verbatim>\<open>glm::vec3\<close> is a triple of cells, a
  cell being indeterminate when the \<^verbatim>\<open>float\<close> it was built from was never written.
\<close>

type_synonym 'f vec3 = "'f cell \<times> 'f cell \<times> 'f cell"
type_synonym 'f vec2 = "'f cell \<times> 'f cell"

record 'f Vertex =
  v_x :: "'f cell"
  v_y :: "'f cell"
  v_z :: "'f cell"
  v_r :: "'f cell"
  v_g :: "'f cell"
  v_b :: "'f cell"
  v_nx :: "'f cell"
  v_ny :: "'f cell"
  v_nz :: "'f cell"
  v_s :: "'f cell"
  v_t :: "'f cell"

type_synonym 'f Triangle = "'f Vertex \<times> 'f Vertex \<times> 'f Vertex"

record Material =
  mat_name :: string
  diffuseTexture :: string

record 'f OBJMesh =
  m_triangles :: "'f Triangle list"
  positions :: "'f vec3 list"
  normals :: "'f vec3 list"
  texCoords :: "'f vec2 list"
  m_material :: Material
  m_textureID :: nat
  m_pendingTexturePath :: string

subsection \<open>\<^verbatim>\<open>OBJMesh::ParseVertexIndices\<close>\<close>

text \<open>
  The later evolution (three indices). The result carries the warnings the call
  writes to \<^verbatim>\<open>std::cerr\<close>. The comparison \<^verbatim>\<open>vtIdx >= texCoords.size()\<close> converts
  \<^verbatim>\<open>vtIdx\<close> to \<^verbatim>\<open>size_t\<close>.
\<close>

definition ParseVertexIndices ::
    "'f OBJMesh \<Rightarrow> string \<Rightarrow> cpp_error + ((int \<times> int \<times> int) \<times> diag list)" where
  "ParseVertexIndices mesh vertexStr =
     (let slash1 = str_find vertexStr CHR ''/'' 0;
          slash2 = str_find vertexStr CHR ''/'' (sz_add slash1 1)
      in if slash1 = npos then
           ebind (stoi vertexStr) (\<lambda>n.
           ebind (int_sub n 1) (\<lambda>vIdx. Inr ((vIdx, 0, 0), [])))
         else
           ebind (substr vertexStr 0 slash1) (\<lambda>vStr.
           ebind (substr vertexStr (sz_add slash1 1) (sz_sub (sz_sub slash2 slash1) 1)) (\<lambda>vtStr.
           ebind (substr vertexStr (sz_add slash2 1) npos) (\<lambda>vnStr.
           ebind (ebind (stoi vStr) (\<lambda>n. int_sub n 1)) (\<lambda>vIdx.
           ebind (if vtStr = [] then Inr 0 else ebind (stoi vtStr) (\<lambda>n. int_sub n 1)) (\<lambda>vtIdx.
           ebind (if vnStr = [] then Inr 0 else ebind (stoi vnStr) (\<lambda>n. int_sub n 1)) (\<lambda>vnIdx.
             if length (texCoords mesh) \<le> to_size_t vtIdx
             then Inr ((vIdx, 0, vnIdx), [InvalidTexCoordIndex vtIdx])
             else Inr ((vIdx, vtIdx, vnIdx), []))))))))"

text \<open>
  The earlier evolution returns the position and the normal index only, and has no
  check of the texture-coordinate index (which it still parses).
\<close>

definition ParseVertexIndices_pair :: "string \<Rightarrow> cpp_error + (int \<times> int)" where
  "ParseVertexIndices_pair vertexStr =
     (let slash1 = str_find vertexStr CHR ''/'' 0;
          slash2 = str_find vertexStr CHR ''/'' (sz_add slash1 1)
      in if slash1 = npos then
           ebind (stoi vertexStr) (\<lambda>n.
           ebind (int_sub n 1) (\<lambda>vIdx. Inr (vIdx, 0)))
         else
           ebind (substr vertexStr 0 slash1) (\<lambda>vStr.
           ebind (substr vertexStr (sz_add slash1 1) (sz_sub (sz_sub slash2 slash1) 1)) (\<lambda>vtStr.
           ebind (substr vertexStr (sz_add slash2 1) npos) (\<lambda>vnStr.
           ebind (ebind (stoi vStr) (\<lambda>n. int_sub n 1)) (\<lambda>vIdx.
           ebind (if vtStr = [] then Inr 0 else ebind (stoi vtStr) (\<lambda>n. int_sub n 1)) (\<lambda>vtIdx.
           ebind (if vnStr = [] then Inr 0 else ebind (stoi vnStr) (\<lambda>n. int_sub n 1)) (\<lambda>vnIdx.
             Inr (vIdx, vnIdx))))))))"

subsection \<open>Input streams\<close>

text \<open>
  One model serves \<^verbatim>\<open>std::istringstream\<close> and \<^verbatim>\<open>std::ifstream\<close>: the characters
  still to be read, the characters already read (most recent first, for
  \<^verbatim>\<open>unget\<close>), and the fail state. Once \<open>failbit\<close> is set every later read
  leaves its target untouched. \<^verbatim>\<open>eofbit\<close> is not kept: it is only ever set
  when nothing is left to read, where the next read fails in the same way.
\<close>

record istream =
  ahead :: string
  behind :: string
  failbit :: bool

definition open_stream :: "string \<Rightarrow> istream" where
  "open_stream s = \<lparr>ahead = s, behind = [], failbit = False\<rparr>"

definition advance :: "nat \<Rightarrow> istream \<Rightarrow> istream" where
  "advance n st = st\<lparr>ahead := drop n (ahead st), behind := rev (take n (ahead st)) @ behind st\<rparr>"

definition skipws :: "istream \<Rightarrow> istream" where
  "skipws st = advance (length (takeWhile isspace (ahead st))) st"

text \<open>
  \<^verbatim>\<open>stream >> str\<close> for a \<^verbatim>\<open>std::string\<close>. The second argument is what the
  string held before: it is kept when the stream has failed or holds only white
  space.
\<close>

definition extract_string :: "istream \<Rightarrow> string \<Rightarrow> string \<times> istream" where
  "extract_string st old =
     (if failbit st then (old, st)
      else let st1 = skipws st in
        if ahead st1 = [] then (old, st1\<lparr>failbit := True\<rparr>)
        else let tok = takeWhile (\<lambda>c. \<not> isspace c) (ahead st1)
             in (tok, advance (length tok) st1))"

text \<open>
  \<^verbatim>\<open>stream >> n\<close> for an \<^verbatim>\<open>int\<close>: an optional sign and decimal digits. With no
  digit the target becomes 0, out of range it becomes the nearest bound, and
  \<open>failbit\<close> is set in both cases.
\<close>

definition extract_int :: "istream \<Rightarrow> int cell \<Rightarrow> int cell \<times> istream" where
  "extract_int st old =
     (if failbit st then (old, st)
      else let st1 = skipws st in
        if ahead st1 = [] then (old, st1\<lparr>failbit := True\<rparr>)
        else
          let a = ahead st1;
              signed = (hd a = CHR ''-'' \<or> hd a = CHR ''+'');
              ds = takeWhile isdigit (if signed then tl a else a);
              v = (if hd a = CHR ''-'' then - digits_value 0 ds else digits_value 0 ds);
              st2 = advance (length ds + (if signed then 1 else 0)) st1
          in if ds = [] then (Val 0, st1\<lparr>failbit := True\<rparr>)
             else if INT_MAX < v then (Val INT_MAX, st2\<lparr>failbit := True\<rparr>)
             else if v < INT_MIN then (Val INT_MIN, st2\<lparr>failbit := True\<rparr>)
             else (Val v, st2))"

text \<open>
  What the program takes from outside its own source: the float reader of the
  standard library (given the characters ahead, the value it stores, how many
  characters it takes and whether it succeeded), the literal \<^verbatim>\<open>0.7f\<close>, and
  \<^verbatim>\<open>glm::normalize\<close>.
\<close>

record 'f float_lib =
  num_get_float :: "string \<Rightarrow> 'f \<times> nat \<times> bool"
  float_0_7 :: 'f
  glm_normalize :: "'f \<times> 'f \<times> 'f \<Rightarrow> 'f \<times> 'f \<times> 'f"

text \<open>\<^verbatim>\<open>stream >> x\<close> for a \<^verbatim>\<open>float\<close>.\<close>

definition extract_float :: "'f float_lib \<Rightarrow> istream \<Rightarrow> 'f cell \<Rightarrow> 'f cell \<times> istream" where
  "extract_float L st old =
     (if failbit st then (old, st)
      else let st1 = skipws st in
        if ahead st1 = [] then (old, st1\<lparr>failbit := True\<rparr>)
        else case num_get_float L (ahead st1) of
               (v, n, ok) \<Rightarrow> (Val v, (advance n st1)\<lparr>failbit := \<not> ok\<rparr>))"

text \<open>\<^verbatim>\<open>glm::normalize\<close> of a vector with a component never written is indeterminate.\<close>

definition normalize_vec3 :: "'f float_lib \<Rightarrow> 'f vec3 \<Rightarrow> 'f vec3" where
  "normalize_vec3 L v =
     (case v of
        (Val a, Val b, Val c) \<Rightarrow>
          (case glm_normalize L (a, b, c) of (p, q, r) \<Rightarrow> (Val p, Val q, Val r))
      | _ \<Rightarrow> (Indeterminate, Indeterminate, Indeterminate))"

text \<open>\<^verbatim>\<open>while (std::getline(file, line))\<close>: the lines of a file, in order.\<close>

fun getlines_from :: "string \<Rightarrow> string \<Rightarrow> string list" where
  "getlines_from cur [] = (if cur = [] then [] else [rev cur])"
| "getlines_from cur (c # cs) =
     (if c = CHR 0x0A then rev cur # getlines_from [] cs else getlines_from (c # cur) cs)"

definition getlines :: "string \<Rightarrow> string list" where
  "getlines content = getlines_from [] content"

text \<open>\<^verbatim>\<open>s.find_last_of(chars)\<close>.\<close>

fun find_last_from :: "string \<Rightarrow> string \<Rightarrow> nat \<Rightarrow> nat \<Rightarrow> nat" where
  "find_last_from chars [] i found = found"
| "find_last_from chars (x # xs) i found =
     find_last_from chars xs (Suc i) (if x \<in> set chars then i else found)"

definition find_last_of :: "string \<Rightarrow> string \<Rightarrow> nat" where
  "find_last_of s chars = find_last_from chars s 0 npos"

text \<open>
  The directory of a path, as both loaders compute it. \<^verbatim>\<open>substr(0, n)\<close> starts at
  position 0 and so never throws.
\<close>

definition directory_of :: "string \<Rightarrow> string" where
  "directory_of filename =
     (let lastSlash = find_last_of filename [CHR ''/'', CHR 0x5C]
      in if lastSlash \<noteq> npos then take (sz_add lastSlash 1) filename else [])"

subsection \<open>\<^verbatim>\<open>OBJMesh::LoadMTL\<close>\<close>

type_synonym filesystem = "string \<Rightarrow> string option"

definition LoadMTL_line :: "string \<Rightarrow> 'f OBJMesh \<Rightarrow> string \<Rightarrow> 'f OBJMesh" where
  "LoadMTL_line filename mesh line =
     (case extract_string (open_stream line) [] of (token, iss1) \<Rightarrow>
        if token = ''newmtl'' then
          (case extract_string iss1 (mat_name (m_material mesh)) of (nm, iss2) \<Rightarrow>
             mesh\<lparr>m_material := (m_material mesh)\<lparr>mat_name := nm\<rparr>\<rparr>)
        else if token = ''map_Kd'' then
          (case extract_string iss1 (diffuseTexture (m_material mesh)) of (tex, iss2) \<Rightarrow>
             mesh\<lparr>m_material := (m_material mesh)\<lparr>diffuseTexture := tex\<rparr>,
                  m_pendingTexturePath := directory_of filename @ tex\<rparr>)
        else mesh)"

definition LoadMTL :: "filesystem \<Rightarrow> string \<Rightarrow> 'f OBJMesh \<Rightarrow> bool \<times> 'f OBJMesh \<times> diag list" where
  "LoadMTL fs filename mesh =
     (case fs filename of
        None \<Rightarrow> (False, mesh, [FailedToOpenMTL filename])
      | Some content \<Rightarrow> (True, foldl (LoadMTL_line filename) mesh (getlines content), []))"

subsection \<open>\<^verbatim>\<open>OBJMesh::LoadOBJ\<close>\<close>

text \<open>\<^verbatim>\<open>pool[i]\<close> with an \<^verbatim>\<open>int\<close> index: no bounds check in the source.\<close>

definition at_index :: "'a list \<Rightarrow> int \<Rightarrow> cpp_error + 'a" where
  "at_index pool i =
     (if to_size_t i < length pool then Inr (pool ! to_size_t i) else Inl OutOfBoundsAccess)"

definition make_vertex :: "'f float_lib \<Rightarrow> 'f OBJMesh \<Rightarrow> int \<times> int \<times> int \<Rightarrow> cpp_error + 'f Vertex" where
  "make_vertex L mesh idx =
     (case idx of (v, vt, vn) \<Rightarrow>
        ebind (at_index (positions mesh) v) (\<lambda>p.
        ebind (at_index (normals mesh) vn) (\<lambda>n.
        ebind (at_index (texCoords mesh) vt) (\<lambda>tc.
          Inr \<lparr>v_x = fst p, v_y = fst (snd p), v_z = snd (snd p),
               v_r = Val (float_0_7 L), v_g = Val (float_0_7 L), v_b = Val (float_0_7 L),
               v_nx = fst n, v_ny = fst (snd n), v_nz = snd (snd n),
               v_s = fst tc, v_t = snd tc\<rparr>))))"

text \<open>
  The state of the line loop: the mesh, the local \<^verbatim>\<open>mtlFile\<close> (declared outside
  the loop, so it survives from line to line) and what has been written to
  \<^verbatim>\<open>std::cerr\<close>.
\<close>

type_synonym 'f loop_state = "'f OBJMesh \<times> string \<times> diag list"

definition LoadOBJ_line ::
    "'f float_lib \<Rightarrow> filesystem \<Rightarrow> string \<Rightarrow> 'f loop_state \<Rightarrow> string \<Rightarrow> cpp_error + 'f loop_state" where
  "LoadOBJ_line L fs filename state line =
     (case state of (mesh, mtlFile, cerr) \<Rightarrow>
      case extract_string (open_stream line) [] of (type, iss1) \<Rightarrow>
        if type = ''mtllib'' then
          (case extract_string iss1 mtlFile of (mtlFile1, iss2) \<Rightarrow>
           case LoadMTL fs (directory_of filename @ mtlFile1) mesh of (ok, mesh1, d) \<Rightarrow>
             Inr (mesh1, mtlFile1, cerr @ d))
        else if type = ''v'' then
          (case extract_float L iss1 Indeterminate of (x, iss2) \<Rightarrow>
           case extract_float L iss2 Indeterminate of (y, iss3) \<Rightarrow>
           case extract_float L iss3 Indeterminate of (z, iss4) \<Rightarrow>
             Inr (mesh\<lparr>positions := positions mesh @ [(x, y, z)]\<rparr>, mtlFile, cerr))
        else if type = ''vn'' then
          (case extract_float L iss1 Indeterminate of (nx, iss2) \<Rightarrow>
           case extract_float L iss2 Indeterminate of (ny, iss3) \<Rightarrow>
           case extract_float L iss3 Indeterminate of (nz, iss4) \<Rightarrow>
             Inr (mesh\<lparr>normals := normals mesh @ [normalize_vec3 L (nx, ny, nz)]\<rparr>, mtlFile, cerr))
        else if type = ''vt'' then
          (case extract_float L iss1 Indeterminate of (s, iss2) \<Rightarrow>
           case extract_float L iss2 Indeterminate of (t, iss3) \<Rightarrow>
             Inr (mesh\<lparr>texCoords := texCoords mesh @ [(s, t)]\<rparr>, mtlFile, cerr))
        else if type = ''f'' then
          (case extract_string iss1 [] of (vertex1, iss2) \<Rightarrow>
           case extract_string iss2 [] of (vertex2, iss3) \<Rightarrow>
           case extract_string iss3 [] of (vertex3, iss4) \<Rightarrow>
             ebind (ParseVertexIndices mesh vertex1) (\<lambda>(i1, d1).
             ebind (ParseVertexIndices mesh vertex2) (\<lambda>(i2, d2).
             ebind (ParseVertexIndices mesh vertex3) (\<lambda>(i3, d3).
             ebind (make_vertex L mesh i1) (\<lambda>a.
             ebind (make_vertex L mesh i2) (\<lambda>b.
             ebind (make_vertex L mesh i3) (\<lambda>c.
               Inr (mesh\<lparr>m_triangles := m_triangles mesh @ [(a, b, c)]\<rparr>, mtlFile,
                    cerr @ d1 @ d2 @ d3))))))))
        else Inr state)"

fun LoadOBJ_lines ::
    "'f float_lib \<Rightarrow> filesystem \<Rightarrow> string \<Rightarrow> 'f loop_state \<Rightarrow> string list \<Rightarrow> cpp_error + 'f loop_state" where
  "LoadOBJ_lines L fs filename state [] = Inr state"
| "LoadOBJ_lines L fs filename state (line # rest) =
     ebind (LoadOBJ_line L fs filename state line) (\<lambda>state1.
       LoadOBJ_lines L fs filename state1 rest)"

definition LoadOBJ ::
    "'f float_lib \<Rightarrow> filesystem \<Rightarrow> string \<Rightarrow> 'f OBJMesh \<Rightarrow> cpp_error + (bool \<times> 'f OBJMesh \<times> diag list)" where
  "LoadOBJ L fs filename mesh =
     (case fs filename of
        None \<Rightarrow> Inr (False, mesh, [FailedToOpenFile filename])
      | Some content \<Rightarrow>
          ebind (LoadOBJ_lines L fs filename
                   (mesh\<lparr>positions := [], normals := [], texCoords := [], m_triangles := []\<rparr>, [], [])
                   (getlines content))
            (\<lambda>(mesh1, mtlFile, cerr). Inr (True, mesh1, cerr)))"

subsection \<open>\<^verbatim>\<open>TextureLoader::ReadImageData\<close>\<close>

text \<open>
  Arithmetic on \<^verbatim>\<open>unsigned int\<close> wraps at \<open>2 ^ 32\<close>. A buffer from
  \<^verbatim>\<open>new unsigned char[n]\<close> starts with every byte indeterminate. Branching on a
  variable that was never written is undefined behaviour, the error
  \<open>IndeterminateRead\<close>.
\<close>

definition UINT_MOD :: nat where "UINT_MOD = 4294967296"

definition to_uint :: "int \<Rightarrow> nat" where
  "to_uint i = nat (i mod int UINT_MOD)"

definition uint_sub :: "nat \<Rightarrow> nat \<Rightarrow> nat" where
  "uint_sub a b = (a + UINT_MOD - b mod UINT_MOD) mod UINT_MOD"

type_synonym buffer = "char cell list"

text \<open>\<^verbatim>\<open>file.get(c)\<close>: the result says whether a character was read.\<close>

definition get_char :: "istream \<Rightarrow> char cell \<Rightarrow> bool \<times> char cell \<times> istream" where
  "get_char st c =
     (if failbit st then (False, c, st)
      else case ahead st of
             [] \<Rightarrow> (False, c, st\<lparr>failbit := True\<rparr>)
           | x # xs \<Rightarrow> (True, Val x, advance 1 st))"

text \<open>\<^verbatim>\<open>file.unget()\<close>.\<close>

definition unget :: "istream \<Rightarrow> istream" where
  "unget st =
     (if failbit st then st
      else case behind st of
             [] \<Rightarrow> st\<lparr>failbit := True\<rparr>
           | x # xs \<Rightarrow> st\<lparr>ahead := x # ahead st, behind := xs\<rparr>)"

text \<open>\<^verbatim>\<open>while (file.get(c) && (c == ' ' || c == '\n' || c == '\r'));\<close>\<close>

function skip_blanks :: "char cell \<Rightarrow> istream \<Rightarrow> char cell \<times> istream" where
  "skip_blanks c st =
     (case get_char st c of (ok, c1, st1) \<Rightarrow>
        if ok \<and> (c1 = Val CHR '' '' \<or> c1 = Val CHR 0x0A \<or> c1 = Val CHR 0x0D)
        then skip_blanks c1 st1 else (c1, st1))"
  by pat_completeness auto
termination
  by (relation "measure (\<lambda>(c, st). length (ahead st))")
     (auto simp: get_char_def advance_def split: if_splits list.splits)

declare skip_blanks.simps [simp del]

text \<open>\<^verbatim>\<open>while (file.get(c) && c != '\n');\<close>\<close>

function skip_line :: "char cell \<Rightarrow> istream \<Rightarrow> char cell \<times> istream" where
  "skip_line c st =
     (case get_char st c of (ok, c1, st1) \<Rightarrow>
        if ok \<and> c1 \<noteq> Val CHR 0x0A then skip_line c1 st1 else (c1, st1))"
  by pat_completeness auto
termination
  by (relation "measure (\<lambda>(c, st). length (ahead st))")
     (auto simp: get_char_def advance_def split: if_splits list.splits)

declare skip_line.simps [simp del]

text \<open>
  \<^verbatim>\<open>while (c == '#') { skip the line; skip the blanks; }\<close> When the stream has
  failed, neither inner loop changes \<^verbatim>\<open>c\<close> and the loop does not end: the
  result is then \<open>None\<close>.
\<close>

partial_function (option) skip_comments :: "char cell \<Rightarrow> istream \<Rightarrow> (char cell \<times> istream) option" where
  "skip_comments c st =
     (if c = Val CHR ''#'' then
        (case skip_line c st of (c1, st1) \<Rightarrow>
         case skip_blanks c1 st1 of (c2, st2) \<Rightarrow> skip_comments c2 st2)
      else Some (c, st))"

declare skip_comments.simps [code]

text \<open>\<^verbatim>\<open>file.read(buf, n)\<close>: short input sets \<open>failbit\<close> and fills only a prefix.\<close>

definition read_bytes :: "istream \<Rightarrow> nat \<Rightarrow> buffer \<Rightarrow> buffer \<times> istream" where
  "read_bytes st n buf =
     (if failbit st then (buf, st)
      else let got = take n (ahead st);
               st1 = advance (length got) st
           in (map Val got @ drop (length got) buf,
               if length got < n then st1\<lparr>failbit := True\<rparr> else st1))"

text \<open>\<^verbatim>\<open>static_cast<unsigned char>(value)\<close>.\<close>

definition to_uchar :: "int cell \<Rightarrow> char cell" where
  "to_uchar v = (case v of Val n \<Rightarrow> Val (char_of (n mod 256)) | Indeterminate \<Rightarrow> Indeterminate)"

text \<open>The loop reading \<^verbatim>\<open>nbytes\<close> decimal samples, \<^verbatim>\<open>value\<close> being a fresh local each time.\<close>

function read_ascii :: "int \<Rightarrow> int \<Rightarrow> istream \<Rightarrow> buffer \<Rightarrow> buffer \<times> istream" where
  "read_ascii i nbytes st buf =
     (if i < nbytes then
        (case extract_int st Indeterminate of (v, st1) \<Rightarrow>
           read_ascii (i + 1) nbytes st1 (buf[nat i := to_uchar v]))
      else (buf, st))"
  by pat_completeness auto
termination
  by (relation "measure (\<lambda>(i, nbytes, st, buf). nat (nbytes - i))") auto

declare read_ascii.simps [simp del]

definition read_samples :: "bool \<Rightarrow> int \<Rightarrow> istream \<Rightarrow> buffer \<Rightarrow> buffer \<times> istream" where
  "read_samples isBinary nbytes st buf =
     (if isBinary then read_bytes st (nat nbytes) buf else read_ascii 0 nbytes st buf)"

text \<open>
  The post-processing loop of the first evolution:
  \<^verbatim>\<open>for (int i = 0; i < nbytes; i += 3) { data[pos] = copyData[i + 2];
  data[pos - 1] = copyData[i + 1]; data[pos - 2] = copyData[i]; pos -= 3; }\<close>
  with \<^verbatim>\<open>unsigned int pos\<close>. The source checks no index; the model does.
\<close>

function flip_loop :: "int \<Rightarrow> int \<Rightarrow> nat \<Rightarrow> buffer \<Rightarrow> buffer \<Rightarrow> cpp_error + buffer" where
  "flip_loop i nbytes pos copyData data =
     (if i < nbytes then
        (if 0 \<le> i \<and> nat (i + 2) < length copyData \<and> pos < length data
            \<and> uint_sub pos 1 < length data \<and> uint_sub pos 2 < length data
         then flip_loop (i + 3) nbytes (uint_sub pos 3) copyData
                (data[pos := copyData ! nat (i + 2),
                      uint_sub pos 1 := copyData ! nat (i + 1),
                      uint_sub pos 2 := copyData ! nat i])
         else Inl OutOfBoundsAccess)
      else Inr data)"
  by pat_completeness auto
termination
  by (relation "measure (\<lambda>(i, nbytes, pos, copyData, data). nat (nbytes - i))") auto

declare flip_loop.simps [simp del]

text \<open>
  \<^verbatim>\<open>width * height * 3\<close>, evaluated from the left in \<^verbatim>\<open>int\<close>, and the allocation
  of that many bytes; \<^verbatim>\<open>new[]\<close> throws on a negative count.
\<close>

definition image_bytes :: "int cell \<Rightarrow> int cell \<Rightarrow> cpp_error + int" where
  "image_bytes width height =
     (case (width, height) of
        (Val w, Val h) \<Rightarrow>
          (let nbytes = int_mul (int_mul w h) 3
           in if nbytes < 0 then Inl BadArrayNewLength else Inr nbytes)
      | _ \<Rightarrow> Inl IndeterminateRead)"

text \<open>
  What both evolutions do up to the allocation: open the file, read the magic
  number, skip blanks and comments, read the three header numbers, and for the
  binary format take one more character. \<open>Return\<close> is an early \<^verbatim>\<open>return\<close>, with
  its diagnostic and with \<^verbatim>\<open>width\<close> and \<^verbatim>\<open>height\<close> as they are at that point;
  \<^verbatim>\<open>data\<close> is then as it was.
\<close>

datatype 'a early = Return diag "int cell" "int cell" | Go 'a

definition read_header ::
    "filesystem \<Rightarrow> string \<Rightarrow> int cell \<Rightarrow> int cell
      \<Rightarrow> (cpp_error + (bool \<times> int cell \<times> int cell \<times> istream) early) option" where
  "read_header fs filepath width0 height0 =
     (case fs filepath of
        None \<Rightarrow> Some (Inr (Return (FailedToOpenPPM filepath) width0 height0))
      | Some content \<Rightarrow>
         (case extract_string (open_stream content) [] of (magicNumber, f1) \<Rightarrow>
            if magicNumber \<noteq> ''P3'' \<and> magicNumber \<noteq> ''P6'' then Some (Inr (Return InvalidPPMFormat width0 height0))
            else
              (case skip_blanks Indeterminate f1 of (c1, f2) \<Rightarrow>
                 if c1 = Indeterminate then Some (Inl IndeterminateRead)
                 else
                   (case skip_comments c1 f2 of
                      None \<Rightarrow> None
                    | Some (c2, f3) \<Rightarrow>
                       (case extract_int (unget f3) width0 of (width, f4) \<Rightarrow>
                        case extract_int f4 height0 of (height, f5) \<Rightarrow>
                        case extract_int f5 Indeterminate of (maxColorValue, f6) \<Rightarrow>
                          (case maxColorValue of
                             Indeterminate \<Rightarrow> Some (Inl IndeterminateRead)
                           | Val m \<Rightarrow>
                               if 255 < m then Some (Inr (Return Only8BitSupported width height))
                               else if magicNumber = ''P6''
                               then Some (Inr (Go (True, width, height,
                                                  snd (snd (get_char f6 Indeterminate)))))
                               else Some (Inr (Go (False, width, height, f6)))))))))"

text \<open>
  The result of \<^verbatim>\<open>ReadImageData\<close>: the three reference parameters as they are on
  return (\<open>None\<close> for a null \<^verbatim>\<open>data\<close>), and what went to \<^verbatim>\<open>std::cerr\<close>.
\<close>

type_synonym image_result = "int cell \<times> int cell \<times> buffer option \<times> diag list"

text \<open>The first evolution: read into \<^verbatim>\<open>copyData\<close>, then reverse into \<^verbatim>\<open>data\<close>.\<close>

definition ReadImageData ::
    "filesystem \<Rightarrow> string \<Rightarrow> int cell \<Rightarrow> int cell \<Rightarrow> buffer option
      \<Rightarrow> (cpp_error + image_result) option" where
  "ReadImageData fs filepath width0 height0 data0 =
     (case read_header fs filepath width0 height0 of
        None \<Rightarrow> None
      | Some (Inl e) \<Rightarrow> Some (Inl e)
      | Some (Inr (Return d width height)) \<Rightarrow> Some (Inr (width, height, data0, [d]))
      | Some (Inr (Go (isBinary, width, height, f))) \<Rightarrow>
          Some (ebind (image_bytes width height) (\<lambda>nbytes.
            case read_samples isBinary nbytes f (replicate (nat nbytes) Indeterminate) of
              (copyData, f1) \<Rightarrow>
                ebind (flip_loop 0 nbytes (to_uint (nbytes - 1)) copyData
                         (replicate (nat nbytes) Indeterminate)) (\<lambda>data.
                  if failbit f1 then Inr (width, height, None, [ErrorWhileReadingPPM])
                  else Inr (width, height, Some data, [])))))"

text \<open>The second evolution: read straight into \<^verbatim>\<open>data\<close>, no post-processing.\<close>

definition ReadImageData_direct ::
    "filesystem \<Rightarrow> string \<Rightarrow> int cell \<Rightarrow> int cell \<Rightarrow> buffer option
      \<Rightarrow> (cpp_error + image_result) option" where
  "ReadImageData_direct fs filepath width0 height0 data0 =
     (case read_header fs filepath width0 height0 of
        None \<Rightarrow> None
      | Some (Inl e) \<Rightarrow> Some (Inl e)
      | Some (Inr (Return d width height)) \<Rightarrow> Some (Inr (width, height, data0, [d]))
      | Some (Inr (Go (isBinary, width, height, f))) \<Rightarrow>
          Some (ebind (image_bytes width height) (\<lambda>nbytes.
            case read_samples isBinary nbytes f (replicate (nat nbytes) Indeterminate) of
              (data, f1) \<Rightarrow>
                if failbit f1 then Inr (width, height, None, [ErrorWhileReadingPPM])
                else Inr (width, height, Some data, []))))"

subsection \<open>\<^verbatim>\<open>TextureLoader::LoadPPM\<close> and \<^verbatim>\<open>OBJMesh::LoadTextures\<close>\<close>

text \<open>
  The OpenGL calls of \<^verbatim>\<open>LoadPPM\<close> are one parameter \<open>gl\<close>: from the state of
  the rendering context and the image it gives the texture name generated, whether
  \<^verbatim>\<open>glGetError\<close> reports an error, and the new state. The two evolutions of
  \<^verbatim>\<open>LoadPPM\<close> differ in these calls and in the reader they use, so the reader is
  an argument as well. \<^verbatim>\<open>width\<close> and \<^verbatim>\<open>height\<close> are uninitialised locals,
  \<^verbatim>\<open>data\<close> starts as \<^verbatim>\<open>nullptr\<close>.
\<close>

type_synonym 'w texture_result = "(cpp_error + (nat \<times> 'w \<times> diag list)) option"

definition LoadPPM_with ::
    "(filesystem \<Rightarrow> string \<Rightarrow> int cell \<Rightarrow> int cell \<Rightarrow> buffer option \<Rightarrow> (cpp_error + image_result) option)
      \<Rightarrow> ('w \<Rightarrow> int cell \<Rightarrow> int cell \<Rightarrow> buffer \<Rightarrow> nat \<times> bool \<times> 'w)
      \<Rightarrow> filesystem \<Rightarrow> string \<Rightarrow> 'w \<Rightarrow> 'w texture_result" where
  "LoadPPM_with reader gl fs filepath world =
     (case reader fs filepath Indeterminate Indeterminate None of
        None \<Rightarrow> None
      | Some (Inl e) \<Rightarrow> Some (Inl e)
      | Some (Inr (width, height, data, d)) \<Rightarrow>
          (case data of
             None \<Rightarrow> Some (Inr (0, world, d @ [FailedToLoadTextureData]))
           | Some buf \<Rightarrow>
               (case gl world width height buf of (textureID, err, world1) \<Rightarrow>
                  if err then Some (Inr (0, world1, d @ [OpenGLError]))
                  else Some (Inr (textureID, world1, d)))))"

definition LoadPPM ::
    "('w \<Rightarrow> int cell \<Rightarrow> int cell \<Rightarrow> buffer \<Rightarrow> nat \<times> bool \<times> 'w)
      \<Rightarrow> filesystem \<Rightarrow> string \<Rightarrow> 'w \<Rightarrow> 'w texture_result" where
  "LoadPPM = LoadPPM_with ReadImageData"

definition LoadPPM_direct ::
    "('w \<Rightarrow> int cell \<Rightarrow> int cell \<Rightarrow> buffer \<Rightarrow> nat \<times> bool \<times> 'w)
      \<Rightarrow> filesystem \<Rightarrow> string \<Rightarrow> 'w \<Rightarrow> 'w texture_result" where
  "LoadPPM_direct = LoadPPM_with ReadImageData_direct"

text \<open>
  \<^verbatim>\<open>OBJMesh::LoadTextures\<close>, over the \<^verbatim>\<open>LoadPPM\<close> it is linked with.
  \<^verbatim>\<open>m_textureID\<close> is assigned before it is tested.
\<close>

definition LoadTextures ::
    "(string \<Rightarrow> 'w \<Rightarrow> 'w texture_result) \<Rightarrow> 'f OBJMesh \<Rightarrow> 'w
      \<Rightarrow> (cpp_error + (bool \<times> 'f OBJMesh \<times> 'w \<times> diag list)) option" where
  "LoadTextures loadPPM mesh world =
     (if m_pendingTexturePath mesh \<noteq> [] then
        (case loadPPM (m_pendingTexturePath mesh) world of
           None \<Rightarrow> None
         | Some (Inl e) \<Rightarrow> Some (Inl e)
         | Some (Inr (textureID, world1, d)) \<Rightarrow>
             if textureID = 0
             then Some (Inr (False, mesh\<lparr>m_textureID := textureID\<rparr>, world1,
                            d @ [FailedToLoadTexture (m_pendingTexturePath mesh)]))
             else Some (Inr (True, mesh\<lparr>m_textureID := textureID, m_pendingTexturePath := []\<rparr>,
                            world1, d)))
      else Some (Inr (True, mesh, world, [])))"

subsection \<open>What a decode leaves behind\<close>








subsection \<open>A concrete library, for evaluating the model\<close>

text \<open>
  To run the model on a concrete file the parameters need values. Floats are
  symbolic here: a float is named by the decimal literal it was read from, or by
  the component of the \<^verbatim>\<open>glm::normalize\<close> call that computed it. The reader takes
  an optional sign, digits, an optional fraction and an optional exponent (the
  letter \<^verbatim>\<open>e\<close> or \<^verbatim>\<open>E\<close>, an optional sign, digits), and fails (storing zero)
  when there is no digit, as the library does on \<^verbatim>\<open>abc\<close>, or when an exponent has
  no digit.
\<close>

datatype sfloat = Lit string | Norm nat "sfloat \<times> sfloat \<times> sfloat"

definition decimal_get :: "string \<Rightarrow> sfloat \<times> nat \<times> bool" where
  "decimal_get a =
     (let sg = takeWhile (\<lambda>c. c = CHR ''-'' \<or> c = CHR ''+'') (take 1 a);
          ip = takeWhile isdigit (drop (length sg) a);
          r1 = drop (length sg + length ip) a;
          fp = (if r1 \<noteq> [] \<and> hd r1 = CHR ''.'' then CHR ''.'' # takeWhile isdigit (tl r1) else []);
          r2 = drop (length fp) r1;
          ex = (if r2 \<noteq> [] \<and> (hd r2 = CHR ''e'' \<or> hd r2 = CHR ''E'')
                then let es = takeWhile (\<lambda>c. c = CHR ''-'' \<or> c = CHR ''+'') (take 1 (tl r2))
                     in hd r2 # es @ takeWhile isdigit (drop (length es) (tl r2))
                else []);
          lx = sg @ ip @ fp @ ex
      in if ip = [] \<and> length fp \<le> 1 then (Lit ''0'', 0, False)
         else if ex \<noteq> [] \<and> \<not> isdigit (last ex) then (Lit ''0'', length lx, False)
         else (Lit lx, length lx, True))"

definition sym_lib :: "sfloat float_lib" where
  "sym_lib = \<lparr>num_get_float = decimal_get, float_0_7 = Lit ''0.7'',
               glm_normalize = (\<lambda>v. (Norm 0 v, Norm 1 v, Norm 2 v))\<rparr>"

definition empty_mesh :: "sfloat OBJMesh" where
  "empty_mesh = \<lparr>m_triangles = [], positions = [], normals = [], texCoords = [],
                  m_material = \<lparr>mat_name = [], diffuseTexture = []\<rparr>,
                  m_textureID = 0, m_pendingTexturePath = []\<rparr>"

subsection \<open>\<^verbatim>\<open>glm::normalize\<close> over the reals\<close>












text \<open>A rendering context that counts the textures it has generated and never reports an error.\<close>

definition counting_gl :: "nat \<Rightarrow> int cell \<Rightarrow> int cell \<Rightarrow> buffer \<Rightarrow> nat \<times> bool \<times> nat" where
  "counting_gl world width height buf = (Suc world, False, Suc world)"

section \<open>Properties\<close>

text \<open>The equations that evaluate the model on a concrete input.\<close>

lemmas index_parser_defs =
  ParseVertexIndices_def ParseVertexIndices_pair_def str_find_def sz_add_def sz_sub_def
  npos_def SIZE_MOD_def substr_def stoi_def isspace_def isdigit_def digit_value_def
  INT_MIN_def INT_MAX_def int_sub_def ebind_def to_size_t_def Let_def

lemmas line_stream_defs =
  extract_string_def extract_float_def open_stream_def advance_def skipws_def isspace_def Let_def

lemmas sym_defs = sym_lib_def decimal_get_def isdigit_def empty_mesh_def


lemmas loader_defs =
  LoadOBJ_def LoadOBJ_line_def getlines_def make_vertex_def at_index_def normalize_vec3_def
  LoadMTL_def LoadMTL_line_def directory_of_def find_last_of_def

lemmas file_stream_defs =
  extract_string_def extract_int_def open_stream_def advance_def skipws_def get_char_def
  unget_def isspace_def isdigit_def digit_value_def INT_MIN_def INT_MAX_def Let_def

lemmas image_defs =
  ReadImageData_def ReadImageData_direct_def read_header_def image_bytes_def int_mul_def to_int_def
  ebind_def read_samples_def read_bytes_def to_uchar_def to_uint_def uint_sub_def UINT_MOD_def
  skip_blanks.simps skip_line.simps skip_comments.simps read_ascii.simps flip_loop.simps

text \<open>The float reader on a literal with an exponent, and on one whose exponent has no digit.\<close>

lemma decimal_get_exponent:
  "decimal_get ''1e2 2 3'' = (Lit ''1e2'', 3, True)
   \<and> decimal_get ''-2.5E-3'' = (Lit ''-2.5E-3'', 7, True)
   \<and> decimal_get ''1e+ 2'' = (Lit ''0'', 3, False)"
  by (simp add: decimal_get_def isdigit_def)

subsection \<open>Face tokens with an absent slot\<close>

text \<open>
  Claim C1 says that a face token \<^verbatim>\<open>v/vt\<close> gets normal index 0, like every absent
  slot. The code does not do that: with no second slash \<^verbatim>\<open>slash2\<close> is \<^verbatim>\<open>npos\<close>,
  \<^verbatim>\<open>slash2 + 1\<close> wraps to 0, \<^verbatim>\<open>vnStr\<close> is the whole token and \<^verbatim>\<open>std::stoi\<close>
  reads the position index from it again. On the token \<^verbatim>\<open>5/3\<close>, against a
  texture-coordinate pool of three entries, the parser returns position index 4,
  texture-coordinate index 2 and normal index 4 (not 0); the earlier evolution of
  the parser returns the same normal index.
\<close>

theorem ParseVertexIndices_v_vt_normal_slot:
  "ParseVertexIndices (mesh\<lparr>texCoords := [tc1, tc2, tc3]\<rparr>) ''5/3'' = Inr ((4, 2, 4), [])
   \<and> ParseVertexIndices_pair ''5/3'' = Inr (4, 4)"
  by (simp add: index_parser_defs)

text \<open>The other three forms of the grammar do what the claim says.\<close>

lemma ParseVertexIndices_other_forms:
  "ParseVertexIndices (mesh\<lparr>texCoords := [tc1, tc2, tc3]\<rparr>) ''5'' = Inr ((4, 0, 0), [])"
  "ParseVertexIndices (mesh\<lparr>texCoords := [tc1, tc2, tc3]\<rparr>) ''5//2'' = Inr ((4, 0, 1), [])"
  "ParseVertexIndices (mesh\<lparr>texCoords := [tc1, tc2, tc3]\<rparr>) ''5/3/2'' = Inr ((4, 2, 1), [])"
  by (simp_all add: index_parser_defs)

text \<open>
  The slip is not particular to \<^verbatim>\<open>5/3\<close>. For every token with exactly one slash
  that the parser accepts, the normal index returned is the position index, so it
  is 0 only when the token refers to position 1.
\<close>

lemma find_from_absent: "c \<notin> set xs \<Longrightarrow> find_from c xs i = npos"
  by (induction xs arbitrary: i) auto

lemma find_from_present: "c \<notin> set xs \<Longrightarrow> find_from c (xs @ c # ys) i = i + length xs"
  by (induction xs arbitrary: i) auto

lemma takeWhile_stop: "\<not> P y \<Longrightarrow> takeWhile P (xs @ y # ys) = takeWhile P xs"
  by (induction xs) auto

lemma dropWhile_all: "\<forall>x \<in> set xs. P x \<Longrightarrow> \<not> P y \<Longrightarrow> dropWhile P (xs @ y # ys) = y # ys"
  by (induction xs) auto

lemma stoi_stops_at_slash: "stoi (vs @ CHR ''/'' # rest) = stoi vs"
proof (cases "\<forall>x \<in> set vs. isspace x")
  case True
  have ns: "\<not> isspace CHR ''/''"
    by (simp add: isspace_def)
  have nd: "\<not> isdigit CHR ''/''"
    by (simp add: isdigit_def)
  have a: "dropWhile isspace (vs @ CHR ''/'' # rest) = CHR ''/'' # rest"
    using True ns by (rule dropWhile_all)
  have b: "dropWhile isspace vs = []"
    using True by simp
  show ?thesis
    by (simp add: stoi_def a b nd)
next
  case False
  have nd: "\<not> isdigit CHR ''/''"
    by (simp add: isdigit_def)
  define w where "w = dropWhile isspace vs"
  have w: "w \<noteq> []"
    using False by (auto simp: w_def)
  have a: "dropWhile isspace (vs @ CHR ''/'' # rest) = w @ CHR ''/'' # rest"
    using False by (auto simp: w_def dropWhile_append1)
  obtain c w' where cw: "w = c # w'"
    using w by (cases w) auto
  show ?thesis
    unfolding stoi_def a w_def [symmetric] cw
    by (simp add: takeWhile_stop [of isdigit, OF nd] Let_def)
qed

lemma ParseVertexIndices_one_slash:
  assumes vs: "CHR ''/'' \<notin> set vs" and vts: "CHR ''/'' \<notin> set vts"
      and len: "Suc (length vs + length vts) < npos"
      and res: "ParseVertexIndices mesh (vs @ CHR ''/'' # vts) = Inr ((v, vt, vn), d)"
  shows "vn = v"
proof -
  let ?tok = "vs @ CHR ''/'' # vts"
  have s1: "str_find ?tok CHR ''/'' 0 = length vs"
    using find_from_present [OF vs, of vts 0] by (simp add: str_find_def)
  have lv: "length vs < npos"
    using len by simp
  have a1: "sz_add (length vs) 1 = Suc (length vs)"
    using len by (simp add: sz_add_def npos_def SIZE_MOD_def)
  have s2: "str_find ?tok CHR ''/'' (Suc (length vs)) = npos"
    using find_from_absent [OF vts] by (simp add: str_find_def)
  have a2: "sz_add npos 1 = 0"
    by (simp add: sz_add_def npos_def SIZE_MOD_def)
  have vn: "substr ?tok 0 npos = Inr ?tok"
    using len by (simp add: substr_def)
  have vstr: "substr ?tok 0 (length vs) = Inr vs"
    by (simp add: substr_def)
  obtain vtStr where vtstr: "substr ?tok (Suc (length vs)) (sz_sub (sz_sub npos (length vs)) 1) = Inr vtStr"
    by (simp add: substr_def)
  from res show ?thesis
    unfolding ParseVertexIndices_def Let_def s1 a1 s2 a2
    using lv
    by (auto simp: vn vstr vtstr ebind_def stoi_stops_at_slash split: if_splits sum.splits)
qed

subsection \<open>Lines with numeric fields\<close>

lemma takeWhile_append_hd: "xs \<noteq> [] \<Longrightarrow> \<not> P (hd xs) \<Longrightarrow> takeWhile P (xs @ ys) = []"
  by (cases xs) auto

text \<open>
  Claim C3 says that a line with a missing or non-numeric field makes the decode
  fail with \<^verbatim>\<open>MalformedLine\<close> and leaves no partial entry in the position pool.
  The decoder has no such check. On the one-line file \<^verbatim>\<open>v 1.0 abc 3.0\<close> it
  returns \<^verbatim>\<open>true\<close> with a position pool of one entry: the first field as read,
  the zero stored by the failed read, and a third component never written.
\<close>

theorem LoadOBJ_malformed_v_line_counterexample:
  "LoadOBJ sym_lib [''a.obj'' \<mapsto> ''v 1.0 abc 3.0''] ''a.obj'' empty_mesh
     = Inr (True, empty_mesh\<lparr>positions := [(Val (Lit ''1.0''), Val (Lit ''0''), Indeterminate)]\<rparr>, [])"
  by (simp add: loader_defs line_stream_defs sym_defs ebind_def)

text \<open>
  Claim C3, as amended: a line whose first token is \<^verbatim>\<open>v\<close>, \<^verbatim>\<open>vn\<close> or \<^verbatim>\<open>vt\<close>
  never makes the decoder fail, whether or not its numeric fields are there and
  numeric. The decoder appends one entry to the pool of that line, built from what
  the reads left in their variables, changes nothing else and goes on with the
  next line. For a malformed line the entry is the partially parsed one: the
  fields read before the failure, then what the failed read left (zero for a field
  that is not a number, nothing for a field that is not there), then components
  never written.
\<close>

theorem numeric_line_appends_entry:
  assumes "extract_string (open_stream line) [] = (ty, iss1)"
      and "extract_float L iss1 Indeterminate = (x, iss2)"
      and "extract_float L iss2 Indeterminate = (y, iss3)"
      and "extract_float L iss3 Indeterminate = (z, iss4)"
  shows "(ty = ''v'' \<longrightarrow>
            LoadOBJ_line L fs filename (mesh, mtlFile, cerr) line
              = Inr (mesh\<lparr>positions := positions mesh @ [(x, y, z)]\<rparr>, mtlFile, cerr))
       \<and> (ty = ''vn'' \<longrightarrow>
            LoadOBJ_line L fs filename (mesh, mtlFile, cerr) line
              = Inr (mesh\<lparr>normals := normals mesh @ [normalize_vec3 L (x, y, z)]\<rparr>, mtlFile, cerr))
       \<and> (ty = ''vt'' \<longrightarrow>
            LoadOBJ_line L fs filename (mesh, mtlFile, cerr) line
              = Inr (mesh\<lparr>texCoords := texCoords mesh @ [(x, y)]\<rparr>, mtlFile, cerr))"
proof (intro conjI impI)
  assume "ty = ''v''"
  with assms show "LoadOBJ_line L fs filename (mesh, mtlFile, cerr) line
      = Inr (mesh\<lparr>positions := positions mesh @ [(x, y, z)]\<rparr>, mtlFile, cerr)"
    by (simp add: LoadOBJ_line_def)
next
  assume "ty = ''vn''"
  with assms show "LoadOBJ_line L fs filename (mesh, mtlFile, cerr) line
      = Inr (mesh\<lparr>normals := normals mesh @ [normalize_vec3 L (x, y, z)]\<rparr>, mtlFile, cerr)"
    by (simp add: LoadOBJ_line_def)
next
  assume "ty = ''vt''"
  with assms show "LoadOBJ_line L fs filename (mesh, mtlFile, cerr) line
      = Inr (mesh\<lparr>texCoords := texCoords mesh @ [(x, y)]\<rparr>, mtlFile, cerr)"
    by (simp add: LoadOBJ_line_def)
qed

text \<open>
  The amended claim on three malformed lines. On \<^verbatim>\<open>v 1.0 abc 3.0\<close> the second
  read fails and stores zero, the third finds the stream failed and writes
  nothing, and the entry is appended all the same. On \<^verbatim>\<open>vn\<close> with no field no
  component is written, and on \<^verbatim>\<open>vt 0.5\<close> the second one is not.
\<close>

theorem numeric_line_appends_entry_witness:
  "failbit (snd (extract_float sym_lib
      (snd (extract_float sym_lib
        (snd (extract_float sym_lib
          (snd (extract_string (open_stream ''v 1.0 abc 3.0'') [])) Indeterminate)) Indeterminate)) Indeterminate))
   \<and> LoadOBJ_line sym_lib Map.empty ''a.obj'' (empty_mesh, [], []) ''v 1.0 abc 3.0''
     = Inr (empty_mesh\<lparr>positions := [(Val (Lit ''1.0''), Val (Lit ''0''), Indeterminate)]\<rparr>, [], [])
   \<and> LoadOBJ_line sym_lib Map.empty ''a.obj'' (empty_mesh, [], []) ''vn''
     = Inr (empty_mesh\<lparr>normals := [(Indeterminate, Indeterminate, Indeterminate)]\<rparr>, [], [])
   \<and> LoadOBJ_line sym_lib Map.empty ''a.obj'' (empty_mesh, [], []) ''vt 0.5''
     = Inr (empty_mesh\<lparr>texCoords := [(Val (Lit ''0.5''), Indeterminate)]\<rparr>, [], [])"
proof -
  note main = numeric_line_appends_entry
    [OF prod.collapse [symmetric] prod.collapse [symmetric] prod.collapse [symmetric]
        prod.collapse [symmetric],
     where L = sym_lib and fs = Map.empty and filename = "''a.obj''" and mesh = empty_mesh
       and mtlFile = "[]" and cerr = "[]"]
  have bad: "failbit (snd (extract_float sym_lib
      (snd (extract_float sym_lib
        (snd (extract_float sym_lib
          (snd (extract_string (open_stream ''v 1.0 abc 3.0'') [])) Indeterminate)) Indeterminate)) Indeterminate))"
    by (simp add: line_stream_defs sym_defs)
  have v: "LoadOBJ_line sym_lib Map.empty ''a.obj'' (empty_mesh, [], []) ''v 1.0 abc 3.0''
             = Inr (empty_mesh\<lparr>positions := [(Val (Lit ''1.0''), Val (Lit ''0''), Indeterminate)]\<rparr>, [], [])"
    using main [where line = "''v 1.0 abc 3.0''", THEN conjunct1]
    by (simp add: line_stream_defs sym_defs)
  have vn: "LoadOBJ_line sym_lib Map.empty ''a.obj'' (empty_mesh, [], []) ''vn''
              = Inr (empty_mesh\<lparr>normals := [(Indeterminate, Indeterminate, Indeterminate)]\<rparr>, [], [])"
    using main [where line = "''vn''", THEN conjunct2, THEN conjunct1]
    by (simp add: line_stream_defs sym_defs normalize_vec3_def)
  have vt: "LoadOBJ_line sym_lib Map.empty ''a.obj'' (empty_mesh, [], []) ''vt 0.5''
              = Inr (empty_mesh\<lparr>texCoords := [(Val (Lit ''0.5''), Indeterminate)]\<rparr>, [], [])"
    using main [where line = "''vt 0.5''", THEN conjunct2, THEN conjunct2]
    by (simp add: line_stream_defs sym_defs)
  from bad v vn vt show ?thesis by blast
qed

text \<open>
  A face line is another matter: a face token that is not a number makes
  \<^verbatim>\<open>std::stoi\<close> throw, and nothing catches the exception.
\<close>

lemma LoadOBJ_non_numeric_face_token:
  "LoadOBJ sym_lib [''a.obj'' \<mapsto> ''v 0 0 0\<newline>vn 0 0 1\<newline>vt 0 0\<newline>f 1 abc 1''] ''a.obj'' empty_mesh
     = Inl StoiInvalidArgument"
  by (simp add: loader_defs line_stream_defs sym_defs index_parser_defs)

text \<open>
  Claim C6: a \<^verbatim>\<open>vt\<close> line appends its two floats to the texture-coordinate pool
  as the library read them. For a line \<^verbatim>\<open>vt a b\<close>, where the float reader takes the
  whole field \<^verbatim>\<open>a\<close> and gives \<open>s\<close>, and at \<^verbatim>\<open>b\<close> gives \<open>t\<close>, the pool grows by the
  pair \<open>(s, t)\<close>: the second component is \<open>t\<close> itself, no arithmetic is applied to
  it, and nothing else in the mesh changes. (This is the later evolution of the
  decoder, the one modelled here; the earlier one stores \<^verbatim>\<open>1.0f - t\<close>.)
\<close>

theorem vt_line_appends_unmodified:
  assumes s: "num_get_float L (a @ CHR '' '' # b) = (s, length a, True)"
      and t: "num_get_float L b = (t, n, ok)"
      and a: "a \<noteq> []" "\<not> isspace (hd a)"
      and b: "b \<noteq> []" "\<not> isspace (hd b)"
  shows "LoadOBJ_line L fs filename (mesh, mtlFile, cerr) (''vt '' @ a @ CHR '' '' # b)
           = Inr (mesh\<lparr>texCoords := texCoords mesh @ [(Val s, Val t)]\<rparr>, mtlFile, cerr)"
proof -
  have tok: "extract_string (open_stream (''vt '' @ a @ CHR '' '' # b)) []
               = (''vt'', \<lparr>ahead = CHR '' '' # a @ CHR '' '' # b, behind = ''tv'', failbit = False\<rparr>)"
    by (simp add: line_stream_defs)
  have ws: "takeWhile isspace (a @ CHR '' '' # b) = []" "takeWhile isspace b = []"
    using a b by (simp_all add: takeWhile_append_hd) (cases b, auto)
  have sp: "isspace CHR '' ''"
    by (simp add: isspace_def)
  have r1: "extract_float L \<lparr>ahead = CHR '' '' # a @ CHR '' '' # b, behind = ''tv'', failbit = False\<rparr> Indeterminate
              = (Val s, \<lparr>ahead = CHR '' '' # b, behind = rev a @ '' tv'', failbit = False\<rparr>)"
    using a s ws sp by (simp add: extract_float_def skipws_def advance_def)
  have r2: "fst (extract_float L \<lparr>ahead = CHR '' '' # b, behind = rev a @ '' tv'', failbit = False\<rparr> Indeterminate)
              = Val t"
    using b t ws sp by (simp add: extract_float_def skipws_def advance_def)
  show ?thesis
    unfolding LoadOBJ_line_def using tok r1 r2 by (simp add: split_beta)
qed

text \<open>Claim C6 on the line \<^verbatim>\<open>vt 0.5 0.25\<close>: the pair stored is (0.5, 0.25).\<close>

theorem vt_line_appends_unmodified_witness:
  "LoadOBJ_line sym_lib Map.empty ''a.obj'' (empty_mesh, [], []) ''vt 0.5 0.25''
     = Inr (empty_mesh\<lparr>texCoords := [(Val (Lit ''0.5''), Val (Lit ''0.25''))]\<rparr>, [], [])"
proof -
  have s: "num_get_float sym_lib (''0.5'' @ CHR '' '' # ''0.25'') = (Lit ''0.5'', length ''0.5'', True)"
    by (simp add: sym_defs)
  have t: "num_get_float sym_lib ''0.25'' = (Lit ''0.25'', 4, True)"
    by (simp add: sym_defs)
  have a: "''0.5'' \<noteq> []" "\<not> isspace (hd ''0.5'')" "''0.25'' \<noteq> []" "\<not> isspace (hd ''0.25'')"
    by (simp_all add: isspace_def)
  from vt_line_appends_unmodified [OF s t a, of Map.empty "''a.obj''" empty_mesh "[]" "[]"]
  show ?thesis by (simp add: empty_mesh_def)
qed

text \<open>
  A \<^verbatim>\<open>vn\<close> line appends whatever \<^verbatim>\<open>glm::normalize\<close> returns for the three floats
  read. Whether that vector has unit length is a fact about the float arithmetic
  of \<^verbatim>\<open>glm\<close>, which is outside this model.
\<close>

lemma vn_line_appends_normalized:
  assumes "extract_string (open_stream line) [] = (''vn'', iss1)"
      and "extract_float L iss1 Indeterminate = (nx, iss2)"
      and "extract_float L iss2 Indeterminate = (ny, iss3)"
      and "extract_float L iss3 Indeterminate = (nz, iss4)"
  shows "LoadOBJ_line L fs filename (mesh, mtlFile, cerr) line
           = Inr (mesh\<lparr>normals := normals mesh @ [normalize_vec3 L (nx, ny, nz)]\<rparr>, mtlFile, cerr)"
  using assms by (simp add: LoadOBJ_line_def)

subsection \<open>Pool lookups of a face line\<close>

text \<open>
  Claim C4 says that a position or normal index outside its pool makes the decode
  fail with \<^verbatim>\<open>UnresolvedReference\<close>, every such lookup being bounds-checked. The
  code checks neither index: \<^verbatim>\<open>positions[v1]\<close> and \<^verbatim>\<open>normals[vn1]\<close> are plain
  \<^verbatim>\<open>operator[]\<close>. On a file with one position, one normal, one texture
  coordinate and the face \<^verbatim>\<open>f 2/1/1 1/1/1 1/1/1\<close>, the decode reads
  \<^verbatim>\<open>positions[1]\<close> past the end of the pool, which is undefined behaviour.
\<close>

theorem LoadOBJ_position_index_out_of_range:
  "LoadOBJ sym_lib [''a.obj'' \<mapsto> ''v 0 0 0\<newline>vn 0 0 1\<newline>vt 0 0\<newline>f 2/1/1 1/1/1 1/1/1''] ''a.obj'' empty_mesh
     = Inl OutOfBoundsAccess"
  by (simp add: loader_defs line_stream_defs sym_defs index_parser_defs)

text \<open>In general: a lookup with a position or normal index outside its pool is an access past the end.\<close>

lemma make_vertex_out_of_range:
  "length (positions mesh) \<le> to_size_t v \<or> length (normals mesh) \<le> to_size_t vn
     \<Longrightarrow> make_vertex L mesh (v, vt, vn) = Inl OutOfBoundsAccess"
  by (auto simp: make_vertex_def at_index_def ebind_def)

text \<open>
  Claim C5 says that a texture-coordinate index outside its pool never makes the
  decode fail: the index is clamped to 0, a diagnostic is written and decoding
  continues. The parser does clamp and warn, but index 0 is itself outside an
  empty pool. On a file with one position, one normal, no \<^verbatim>\<open>vt\<close> line and the
  face \<^verbatim>\<open>f 1/1/1 1/1/1 1/1/1\<close>, the parser returns texture-coordinate index 0
  with the warning, and the decode then reads \<^verbatim>\<open>texCoords[0]\<close> of the empty pool,
  which is undefined behaviour.
\<close>

theorem LoadOBJ_texcoord_clamp_on_empty_pool:
  "ParseVertexIndices (empty_mesh\<lparr>positions := [p], normals := [n]\<rparr>) ''1/1/1''
     = Inr ((0, 0, 0), [InvalidTexCoordIndex 0])
   \<and> LoadOBJ sym_lib [''a.obj'' \<mapsto> ''v 0 0 0\<newline>vn 0 0 1\<newline>f 1/1/1 1/1/1 1/1/1''] ''a.obj'' empty_mesh
     = Inl OutOfBoundsAccess"
  by (simp add: loader_defs line_stream_defs sym_defs index_parser_defs)

text \<open>
  What does hold: the texture-coordinate index the parser returns is 0 or inside
  the pool; when a warning is written, the parsed index was outside the pool and 0
  is returned in its place; and with a pool that is not empty the lookup of the
  returned index succeeds.
\<close>

lemma ParseVertexIndices_texcoord_clamped:
  assumes "ParseVertexIndices mesh tok = Inr ((v, vt, vn), d)"
  shows "(d = [] \<and> (vt = 0 \<or> to_size_t vt < length (texCoords mesh)))
         \<or> (\<exists>i. d = [InvalidTexCoordIndex i] \<and> vt = 0 \<and> length (texCoords mesh) \<le> to_size_t i)"
  using assms
  by (auto simp: ParseVertexIndices_def ebind_def Let_def split: if_splits sum.splits)

lemma clamped_texcoord_lookup:
  assumes "ParseVertexIndices mesh tok = Inr ((v, vt, vn), d)" "texCoords mesh \<noteq> []"
  shows "at_index (texCoords mesh) vt = Inr (texCoords mesh ! to_size_t vt)"
proof -
  have "to_size_t 0 = 0" by (simp add: to_size_t_def)
  with ParseVertexIndices_texcoord_clamped [OF assms(1)] assms(2) show ?thesis
    by (auto simp: at_index_def)
qed

subsection \<open>A decode does not depend on what the mesh object held\<close>











text \<open>
  The other way for an earlier decode to show is a face index outside its pool
  (claim C4). The lookup goes past the end of the pool the decoder has just
  emptied and refilled, where the storage still holds what the earlier decode put
  there. In the model that lookup is the error \<open>OutOfBoundsAccess\<close>, on a new
  mesh object and on a used one alike.
\<close>

lemma LoadOBJ_lookup_past_refilled_pool:
  "LoadOBJ sym_lib [''a.obj'' \<mapsto> ''v 0 0 0\<newline>vn 0 0 1\<newline>vt 0 0\<newline>f 2/1/1 1/1/1 1/1/1''] ''a.obj''
     (empty_mesh\<lparr>positions := [(Val (Lit ''8''), Val (Lit ''8''), Val (Lit ''8'')),
                                 (Val (Lit ''9''), Val (Lit ''9''), Val (Lit ''9''))]\<rparr>)
     = Inl OutOfBoundsAccess"
  by (simp add: loader_defs line_stream_defs sym_defs index_parser_defs)



subsection \<open>Normals have unit length\<close>













subsection \<open>The deferred texture load\<close>

text \<open>
  Claim C8: when \<^verbatim>\<open>LoadTextures\<close> returns \<^verbatim>\<open>true\<close>, the mesh object it leaves has
  no pending texture path, and any further call on that object, whatever the
  loader and the state of the rendering context, returns \<^verbatim>\<open>true\<close> again, calls
  no loader, writes no diagnostic and changes neither the mesh object nor the
  rendering context.
\<close>

theorem LoadTextures_idempotent:
  assumes "LoadTextures loadPPM mesh world = Some (Inr (True, mesh', world', d))"
  shows "m_pendingTexturePath mesh' = []
         \<and> LoadTextures loadPPM2 mesh' world2 = Some (Inr (True, mesh', world2, []))"
proof -
  from assms have "m_pendingTexturePath mesh' = []"
    by (auto simp: LoadTextures_def split: if_splits option.splits sum.splits prod.splits)
  then show ?thesis
    by (simp add: LoadTextures_def)
qed

theorem LoadTextures_idempotent_witness:
  "LoadTextures (LoadPPM counting_gl [''t.ppm'' \<mapsto> ''P6\<newline>2 2\<newline>255\<newline>abcdefghijkl''])
      (empty_mesh\<lparr>m_pendingTexturePath := ''t.ppm''\<rparr>) 0
     = Some (Inr (True, empty_mesh\<lparr>m_textureID := 1\<rparr>, 1, []))
   \<and> m_pendingTexturePath (empty_mesh\<lparr>m_textureID := 1\<rparr>) = []
   \<and> LoadTextures (LoadPPM counting_gl Map.empty) (empty_mesh\<lparr>m_textureID := 1\<rparr>) 7
     = Some (Inr (True, empty_mesh\<lparr>m_textureID := 1\<rparr>, 7, []))"
proof -
  have first: "LoadTextures (LoadPPM counting_gl [''t.ppm'' \<mapsto> ''P6\<newline>2 2\<newline>255\<newline>abcdefghijkl''])
                  (empty_mesh\<lparr>m_pendingTexturePath := ''t.ppm''\<rparr>) 0
                 = Some (Inr (True, empty_mesh\<lparr>m_textureID := 1\<rparr>, 1, []))"
    by (simp add: file_stream_defs image_defs LoadTextures_def LoadPPM_def LoadPPM_with_def
          counting_gl_def empty_mesh_def)
  from LoadTextures_idempotent [OF first, of "LoadPPM counting_gl Map.empty" 7] first
  show ?thesis by simp
qed

subsection \<open>The post-processing pass of the image decoder\<close>

lemma uint_sub_small:
  assumes "b \<le> a" "a < UINT_MOD"
  shows "uint_sub a b = a - b"
proof -
  have b: "b mod UINT_MOD = b" using assms by simp
  have "a + UINT_MOD - b = (a - b) + UINT_MOD" using assms by simp
  then have "(a + UINT_MOD - b) mod UINT_MOD = (a - b) mod UINT_MOD" by simp
  also have "\<dots> = a - b" using assms by simp
  finally show ?thesis by (simp add: uint_sub_def b)
qed

lemma flip_loop_spec:
  fixes a m :: nat
  assumes "a \<le> m" "length copyData = 3 * m" "length data = 3 * m" "3 * m < UINT_MOD"
      and "a < m \<Longrightarrow> pos = 3 * (m - a) - 1"
  shows "\<exists>out. flip_loop (int (3 * a)) (int (3 * m)) pos copyData data = Inr out
           \<and> length out = 3 * m
           \<and> (\<forall>t k. t < m \<longrightarrow> k < 3 \<longrightarrow>
                 out ! (3 * t + k) = (if t < m - a then copyData ! (3 * (m - 1 - t) + k)
                                      else data ! (3 * t + k)))"
  using assms
proof (induction "m - a" arbitrary: a pos data)
  case 0
  then have "a = m" by simp
  then show ?case using 0 by (simp add: flip_loop.simps)
next
  case (Suc d)
  then have am: "a < m" by simp
  define q where "q = m - a - 1"
  have q: "m - a = Suc q" "q < m" "a = m - 1 - q" using am by (simp_all add: q_def)
  have pos: "pos = 3 * q + 2" using Suc.prems(5) [OF am] q by simp
  have p1: "uint_sub pos 1 = 3 * q + 1" and p2: "uint_sub pos 2 = 3 * q"
    using pos q Suc.prems(4) by (simp_all add: uint_sub_small)
  let ?data' = "data[pos := copyData ! (3 * a + 2),
                     uint_sub pos 1 := copyData ! (3 * a + 1),
                     uint_sub pos 2 := copyData ! (3 * a)]"
  have n: "nat (int (3 * a)) = 3 * a" "nat (int (3 * a) + 1) = 3 * a + 1"
          "nat (int (3 * a) + 2) = 3 * a + 2"
    by simp_all
  have cond: "int (3 * a) < int (3 * m)" using am by simp
  have ok: "0 \<le> int (3 * a) \<and> nat (int (3 * a) + 2) < length copyData \<and> pos < length data
              \<and> uint_sub pos 1 < length data \<and> uint_sub pos 2 < length data"
    using am pos p1 p2 q(2) Suc.prems(2,3) by (simp add: nat_add_distrib)
  have ok': "0 \<le> int (3 * a) \<and> 3 * a + 2 < length copyData \<and> pos < length data
              \<and> uint_sub pos 1 < length data \<and> uint_sub pos 2 < length data"
    using ok by (simp only: n)
  have step3: "int (3 * a) + 3 = int (3 * Suc a)" by simp
  have unf: "flip_loop (int (3 * a)) (int (3 * m)) pos copyData data
               = flip_loop (int (3 * Suc a)) (int (3 * m)) (uint_sub pos 3) copyData ?data'"
    by (subst flip_loop.simps) (simp only: cond ok ok' if_True step3 simp_thms n)
  have next_pos: "Suc a < m \<Longrightarrow> uint_sub pos 3 = 3 * (m - Suc a) - 1"
    using pos q Suc.prems(4) by (simp add: uint_sub_small)
  have "d = m - Suc a" using Suc.hyps(2) by simp
  from Suc.hyps(1) [OF this, of ?data' "uint_sub pos 3"] am Suc.prems(2,3,4) next_pos
  obtain out where out: "flip_loop (int (3 * Suc a)) (int (3 * m)) (uint_sub pos 3) copyData ?data' = Inr out"
      "length out = 3 * m"
      "\<And>t k. t < m \<Longrightarrow> k < 3 \<Longrightarrow>
          out ! (3 * t + k) = (if t < m - Suc a then copyData ! (3 * (m - 1 - t) + k)
                               else ?data' ! (3 * t + k))"
    by auto
  have msa: "m - Suc a = q" and ma: "m - a = Suc q" using q(1) by simp_all
  have sel: "3 * (m - 1 - q) = 3 * a" using q am by simp
  have "out ! (3 * t + k) = (if t < m - a then copyData ! (3 * (m - 1 - t) + k) else data ! (3 * t + k))"
    if t: "t < m" and k: "k < 3" for t k
  proof -
    consider (lt) "t < q" | (eq) "t = q" | (gt) "q < t" by linarith
    then show ?thesis
    proof cases
      case lt
      then show ?thesis using out(3) [OF t k] msa ma by simp
    next
      case eq
      from k consider "k = 0" | "k = 1" | "k = 2" by linarith
      then show ?thesis
      proof cases
        case 1
        then show ?thesis
          using out(3) [OF t k] eq msa ma pos p1 p2 sel Suc.prems(3) q(2) by simp
      next
        case 2
        then show ?thesis
          using out(3) [OF t k] eq msa ma pos p1 p2 sel Suc.prems(3) q(2) by simp
      next
        case 3
        then show ?thesis
          using out(3) [OF t k] eq msa ma pos p1 p2 sel Suc.prems(3) q(2) by simp
      qed
    next
      case gt
      then have "3 * t + k \<noteq> pos" "3 * t + k \<noteq> 3 * q + 1" "3 * t + k \<noteq> 3 * q"
        using pos by simp_all
      then show ?thesis using out(3) [OF t k] gt msa ma p1 p2 by simp
    qed
  qed
  with out unf show ?case by simp
qed

text \<open>
  The pass as a whole, on a buffer of \<open>m\<close> pixels: output triple \<open>t\<close> is input
  triple \<open>m - 1 - t\<close>, and within the triple byte \<open>k\<close> stays byte \<open>k\<close>. No index
  leaves either buffer.
\<close>

lemma flip_loop_reverses_triples:
  assumes "length copyData = 3 * m" "3 * m < UINT_MOD"
  shows "\<exists>out. flip_loop 0 (int (3 * m)) (to_uint (int (3 * m) - 1)) copyData
                  (replicate (3 * m) Indeterminate) = Inr out
           \<and> length out = 3 * m
           \<and> (\<forall>t k. t < m \<longrightarrow> k < 3 \<longrightarrow> out ! (3 * t + k) = copyData ! (3 * (m - 1 - t) + k))"
proof -
  have pos: "0 < m \<Longrightarrow> to_uint (int (3 * m) - 1) = 3 * (m - 0) - 1"
  proof -
    assume m: "0 < m"
    then have "int (3 * m) - 1 = int (3 * m - 1)" by simp
    moreover have "3 * m - 1 < UINT_MOD" using assms(2) by simp
    ultimately show ?thesis unfolding to_uint_def
      by (metis (no_types) minus_nat.diff_0 mod_less nat_int of_nat_mod)
  qed
  from flip_loop_spec [of 0 m copyData "replicate (3 * m) Indeterminate" "to_uint (int (3 * m) - 1)"]
    assms pos
  show ?thesis by simp
qed

text \<open>
  Claim C2 says that the pass writes input triple \<open>i\<close> to output index
  \<open>3 * w * h - 3 - i\<close> with its channels swapped to blue, green, red. The index
  is right, the swap is not there: the pass writes the three bytes downwards from
  \<^verbatim>\<open>pos\<close> in the order blue, green, red, so in memory each triple keeps the order
  red, green, blue it had in the file. A binary image of 2 by 2 pixels with the
  samples \<^verbatim>\<open>abc def ghi jkl\<close> decodes to \<^verbatim>\<open>jkl ghi def abc\<close>: the first triple
  out is the last triple in, not its mirror \<^verbatim>\<open>lkj\<close>.
\<close>

theorem ReadImageData_keeps_channel_order:
  "ReadImageData [''t.ppm'' \<mapsto> ''P6\<newline>2 2\<newline>255\<newline>abcdefghijkl''] ''t.ppm'' Indeterminate Indeterminate None
     = Some (Inr (Val 2, Val 2, Some (map Val ''jklghidefabc''), []))"
  by (simp add: file_stream_defs image_defs) (simp add: eval_nat_numeral)

subsection \<open>The comment loop of the image decoder\<close>

text \<open>
  Once the stream has failed, \<^verbatim>\<open>file.get(c)\<close> leaves \<^verbatim>\<open>c\<close> as it is, and the loop
  \<^verbatim>\<open>while (c == '#')\<close> has nothing left that could end it. A file whose last
  character is the \<^verbatim>\<open>#\<close> of a header comment is such an input: the decoder does
  not return on it.
\<close>

lemma skip_line_failed: "failbit st \<Longrightarrow> skip_line c st = (c, st)"
  by (subst skip_line.simps) (simp add: get_char_def)

lemma skip_blanks_failed: "failbit st \<Longrightarrow> skip_blanks c st = (c, st)"
  by (subst skip_blanks.simps) (simp add: get_char_def)


lemma skip_comments_returns:
  assumes "skip_comments c st = Some y"
  shows "\<not> (c = Val CHR ''#'' \<and> failbit st)"
proof (rule skip_comments.raw_induct
              [where P = "\<lambda>c st y. \<not> (c = Val CHR ''#'' \<and> failbit st)", OF _ assms])
  fix f c st y
  assume IH: "\<And>c st y. f c st = Some y \<Longrightarrow> \<not> (c = Val CHR ''#'' \<and> failbit st)"
    and body: "(if c = Val CHR ''#'' then case skip_line c st of (c1, st1) \<Rightarrow>
                   case skip_blanks c1 st1 of (c2, st2) \<Rightarrow> f c2 st2
                else Some (c, st)) = Some y"
  show "\<not> (c = Val CHR ''#'' \<and> failbit st)"
  proof
    assume a: "c = Val CHR ''#'' \<and> failbit st"
    with body have "f c st = Some y"
      by (simp add: skip_line_failed skip_blanks_failed)
    from IH [OF this] a show False by simp
  qed
qed

lemma skip_comments_failed: "failbit st \<Longrightarrow> skip_comments (Val CHR ''#'') st = None"
  using skip_comments_returns [of "Val CHR ''#''" st] by (cases "skip_comments (Val CHR ''#'') st") auto

lemma ReadImageData_comment_at_end_of_file:
  "ReadImageData [''t.ppm'' \<mapsto> ''P6 #''] ''t.ppm'' width0 height0 data0 = None"
proof -
  have "skip_comments (Val CHR ''#'') \<lparr>ahead = [], behind = ''# 6P'', failbit = False\<rparr>
          = skip_comments (Val CHR ''#'') \<lparr>ahead = [], behind = ''# 6P'', failbit = True\<rparr>"
    by (subst skip_comments.simps) (simp add: skip_line.simps skip_blanks.simps get_char_def)
  then have "skip_comments (Val CHR ''#'') \<lparr>ahead = [], behind = ''# 6P'', failbit = False\<rparr> = None"
    by (simp add: skip_comments_failed)
  then show ?thesis
    by (simp add: ReadImageData_def read_header_def extract_string_def open_stream_def skipws_def
          advance_def isspace_def skip_blanks.simps get_char_def Let_def)
qed

subsection \<open>The image decoder never returns a partly filled buffer\<close>

lemma extract_int_failed: "failbit st \<Longrightarrow> extract_int st old = (old, st)"
  by (simp add: extract_int_def)

lemma extract_int_good:
  assumes "extract_int st old = (v, st1)" "\<not> failbit st1"
  shows "\<exists>n. v = Val n"
  using assms by (auto simp: extract_int_def Let_def split: if_splits)

lemma read_ascii_length: "length (fst (read_ascii i nbytes st buf)) = length buf"
proof (induction i nbytes st buf rule: read_ascii.induct)
  case (1 i nbytes st buf)
  show ?case
  proof (cases "i < nbytes")
    case True
    obtain v st1 where e: "extract_int st Indeterminate = (v, st1)"
      by (cases "extract_int st Indeterminate")
    from "1.IH" [OF True e [symmetric]] True e show ?thesis
      by (subst read_ascii.simps) simp
  next
    case False
    then show ?thesis by (subst read_ascii.simps) simp
  qed
qed

lemma read_ascii_failed: "failbit st \<Longrightarrow> failbit (snd (read_ascii i nbytes st buf))"
proof (induction i nbytes st buf rule: read_ascii.induct)
  case (1 i nbytes st buf)
  show ?case
  proof (cases "i < nbytes")
    case True
    have e: "extract_int st Indeterminate = (Indeterminate, st)"
      using "1.prems" by (rule extract_int_failed)
    from "1.IH" [OF True e [symmetric] "1.prems"] True e show ?thesis
      by (subst read_ascii.simps) simp
  next
    case False
    then show ?thesis using "1.prems" by (subst read_ascii.simps) simp
  qed
qed

lemma read_ascii_below:
  "0 \<le> i \<Longrightarrow> k < nat i \<Longrightarrow> fst (read_ascii i nbytes st buf) ! k = buf ! k"
proof (induction i nbytes st buf rule: read_ascii.induct)
  case (1 i nbytes st buf)
  show ?case
  proof (cases "i < nbytes")
    case True
    obtain v st1 where e: "extract_int st Indeterminate = (v, st1)"
      by (cases "extract_int st Indeterminate")
    have "fst (read_ascii (i + 1) nbytes st1 (buf[nat i := to_uchar v])) ! k
            = (buf[nat i := to_uchar v]) ! k"
      using "1.IH" [OF True e [symmetric]] "1.prems" by simp
    with True e "1.prems" show ?thesis
      by (subst read_ascii.simps) simp
  next
    case False
    then show ?thesis by (subst read_ascii.simps) simp
  qed
qed

lemma read_ascii_filled:
  "\<not> failbit (snd (read_ascii i nbytes st buf)) \<Longrightarrow> 0 \<le> i \<Longrightarrow> nat i \<le> k \<Longrightarrow> k < nat nbytes
     \<Longrightarrow> k < length buf \<Longrightarrow> fst (read_ascii i nbytes st buf) ! k \<noteq> Indeterminate"
proof (induction i nbytes st buf rule: read_ascii.induct)
  case (1 i nbytes st buf)
  have lt: "i < nbytes" using "1.prems" by linarith
  obtain v st1 where e: "extract_int st Indeterminate = (v, st1)"
    by (cases "extract_int st Indeterminate")
  let ?buf = "buf[nat i := to_uchar v]"
  have unf: "read_ascii i nbytes st buf = read_ascii (i + 1) nbytes st1 ?buf"
    using lt e by (subst read_ascii.simps) simp
  have good: "\<not> failbit (snd (read_ascii (i + 1) nbytes st1 ?buf))"
    using "1.prems"(1) unf by simp
  then have "\<not> failbit st1" using read_ascii_failed by blast
  with e obtain n where v: "v = Val n" using extract_int_good by blast
  show ?case
  proof (cases "k = nat i")
    case True
    have "fst (read_ascii (i + 1) nbytes st1 ?buf) ! k = ?buf ! k"
      using True "1.prems"(2) by (intro read_ascii_below) simp_all
    with True v "1.prems"(5) unf show ?thesis by (simp add: to_uchar_def)
  next
    case False
    with "1.prems" have "nat (i + 1) \<le> k" by linarith
    from "1.IH" [OF lt e [symmetric] good _ this "1.prems"(4)] "1.prems"(2,5) unf
    show ?thesis by simp
  qed
qed

lemma read_bytes_good:
  assumes "\<not> failbit (snd (read_bytes st n buf))" "length buf = n"
  shows "fst (read_bytes st n buf) = map Val (take n (ahead st)) \<and> length (take n (ahead st)) = n"
proof -
  from assms(1) have nf: "\<not> failbit st"
    by (auto simp: read_bytes_def)
  with assms(1) have "\<not> length (take n (ahead st)) < n"
    by (auto simp: read_bytes_def Let_def advance_def split: if_splits)
  then have len: "length (take n (ahead st)) = n" by simp
  with nf assms(2) show ?thesis by (simp add: read_bytes_def Let_def)
qed

lemma read_samples_length:
  "length buf = nat nbytes \<Longrightarrow> length (fst (read_samples isBinary nbytes st buf)) = nat nbytes"
  by (auto simp: read_samples_def read_ascii_length read_bytes_def Let_def)

lemma read_samples_good:
  assumes "\<not> failbit (snd (read_samples isBinary nbytes st (replicate (nat nbytes) Indeterminate)))"
  shows "Indeterminate \<notin> set (fst (read_samples isBinary nbytes st (replicate (nat nbytes) Indeterminate)))"
proof (cases isBinary)
  case True
  with assms read_bytes_good [of st "nat nbytes" "replicate (nat nbytes) Indeterminate"]
  show ?thesis by (auto simp: read_samples_def)
next
  case False
  let ?r = "read_ascii 0 nbytes st (replicate (nat nbytes) Indeterminate)"
  have g: "\<not> failbit (snd ?r)" using assms False by (simp add: read_samples_def)
  have "fst ?r ! k \<noteq> Indeterminate" if "k < length (fst ?r)" for k
    using that read_ascii_filled [OF g, of k] by (simp add: read_ascii_length)
  then have "Indeterminate \<notin> set (fst ?r)" by (metis in_set_conv_nth)
  with False show ?thesis by (simp add: read_samples_def)
qed


lemma to_int_fits: "INT_MIN \<le> v \<Longrightarrow> v \<le> INT_MAX \<Longrightarrow> to_int v = v"
  by (simp add: to_int_def INT_MIN_def INT_MAX_def)

lemma to_int_range: "INT_MIN \<le> to_int v \<and> to_int v \<le> INT_MAX"
proof -
  have "0 \<le> (v + 2147483648) mod 4294967296" "(v + 2147483648) mod 4294967296 < 4294967296"
    by simp_all
  then show ?thesis by (simp add: to_int_def INT_MIN_def INT_MAX_def)
qed

text \<open>Where \<open>3 * w * h\<close> is an \<^verbatim>\<open>int\<close>, so is \<open>w * h\<close>, and the size computed is that product.\<close>

lemma int_mul_fits:
  assumes "INT_MIN \<le> 3 * w * h" "3 * w * h \<le> INT_MAX"
  shows "int_mul (int_mul w h) 3 = 3 * w * h"
proof -
  define p where "p = w * h"
  have b: "INT_MIN \<le> 3 * p" "3 * p \<le> INT_MAX"
    using assms by (simp_all add: p_def mult.assoc)
  then have "INT_MIN \<le> p" "p \<le> INT_MAX"
    by (simp_all add: INT_MIN_def INT_MAX_def)
  then have "to_int p = p" by (rule to_int_fits)
  moreover have "to_int (p * 3) = p * 3"
    using b by (intro to_int_fits) (simp_all add: mult.commute)
  ultimately show ?thesis by (simp add: int_mul_def p_def mult.assoc mult.commute)
qed

lemma image_bytes_Inr:
  assumes "image_bytes width height = Inr nbytes"
  shows "\<exists>w h. width = Val w \<and> height = Val h \<and> nbytes = int_mul (int_mul w h) 3
                \<and> 0 \<le> nbytes \<and> nat nbytes < UINT_MOD"
proof -
  from assms obtain w h where wh: "width = Val w" "height = Val h"
    by (cases width; cases height) (simp_all add: image_bytes_def)
  from assms wh have n: "nbytes = int_mul (int_mul w h) 3" "0 \<le> nbytes"
    by (auto simp: image_bytes_def Let_def split: if_splits)
  have "nbytes \<le> INT_MAX"
    using to_int_range [of "int_mul w h * 3"] n(1) by (simp add: int_mul_def)
  then have "nat nbytes < UINT_MOD"
    using n(2) by (simp add: INT_MAX_def UINT_MOD_def)
  with wh n show ?thesis by blast
qed

text \<open>
  The pass takes three bytes at a time. When the number of bytes is not a multiple
  of three (a size that has wrapped around can be such a number) its last round
  reads past the end of \<^verbatim>\<open>copyData\<close>: the pass ends without leaving its buffers
  only on a multiple of three.
\<close>

lemma flip_loop_Inr_multiple:
  "flip_loop i nbytes pos copyData data = Inr out \<Longrightarrow> i mod 3 = 0 \<Longrightarrow> i \<le> nbytes
     \<Longrightarrow> length copyData = nat nbytes \<Longrightarrow> nbytes mod 3 = 0"
proof (induction i nbytes pos copyData data rule: flip_loop.induct)
  case (1 i nbytes pos copyData data)
  show ?case
  proof (cases "i < nbytes")
    case False
    with "1.prems"(3) have "i = nbytes" by simp
    with "1.prems"(2) show ?thesis by simp
  next
    case True
    let ?ok = "0 \<le> i \<and> nat (i + 2) < length copyData \<and> pos < length data
                 \<and> uint_sub pos 1 < length data \<and> uint_sub pos 2 < length data"
    have ok: ?ok
    proof (rule ccontr)
      assume bad: "\<not> ?ok"
      have "flip_loop i nbytes pos copyData data = Inl OutOfBoundsAccess"
        by (subst flip_loop.simps) (simp only: True bad if_True if_False)
      with "1.prems"(1) show False by simp
    qed
    let ?data = "data[pos := copyData ! nat (i + 2), uint_sub pos 1 := copyData ! nat (i + 1),
                      uint_sub pos 2 := copyData ! nat i]"
    have unf: "flip_loop i nbytes pos copyData data
                 = flip_loop (i + 3) nbytes (uint_sub pos 3) copyData ?data"
      by (subst flip_loop.simps) (simp only: True ok if_True simp_thms)
    have le: "i + 3 \<le> nbytes" using ok "1.prems"(4) by linarith
    have m3: "(i + 3) mod 3 = 0" using "1.prems"(2) by presburger
    from "1.IH" [OF True ok _ m3 le "1.prems"(4)] unf "1.prems"(1)
    show ?thesis by simp
  qed
qed

lemma flip_loop_keeps_values:
  assumes "length copyData = 3 * m" "3 * m < UINT_MOD" "Indeterminate \<notin> set copyData"
      and "flip_loop 0 (int (3 * m)) (to_uint (int (3 * m) - 1)) copyData
             (replicate (3 * m) Indeterminate) = Inr out"
  shows "length out = 3 * m \<and> Indeterminate \<notin> set out"
proof -
  from flip_loop_reverses_triples [OF assms(1,2)] assms(4)
  have len: "length out = 3 * m"
    and nth: "\<And>t k. t < m \<Longrightarrow> k < 3 \<Longrightarrow> out ! (3 * t + k) = copyData ! (3 * (m - 1 - t) + k)"
    by auto
  have "out ! j \<noteq> Indeterminate" if j: "j < length out" for j
  proof -
    have jd: "j = 3 * (j div 3) + j mod 3" by simp
    have t: "j div 3 < m" using j len by simp
    have k: "j mod 3 < 3" by simp
    have "3 * (m - 1 - j div 3) + j mod 3 < length copyData" using t assms(1) by simp
    then have "copyData ! (3 * (m - 1 - j div 3) + j mod 3) \<in> set copyData" by simp
    with nth [OF t k] assms(3) jd show ?thesis by metis
  qed
  then have "Indeterminate \<notin> set out" by (metis in_set_conv_nth)
  with len show ?thesis by simp
qed

lemma image_bytes_triples:
  assumes "image_bytes width height = Inr nbytes" "nbytes mod 3 = 0"
  shows "\<exists>m. nbytes = int (3 * m) \<and> 3 * m < UINT_MOD"
proof -
  from image_bytes_Inr [OF assms(1)] have n: "0 \<le> nbytes" "nat nbytes < UINT_MOD"
    by auto
  from assms(2) obtain q where q: "nbytes = 3 * q" by auto
  with n(1) have q0: "0 \<le> q" by simp
  have e: "nat nbytes = 3 * nat q" using q q0 by (simp add: nat_mult_distrib)
  have "nbytes = int (3 * nat q)" using q q0 by simp
  moreover have "3 * nat q < UINT_MOD" using n(2) unfolding e .
  ultimately show ?thesis by blast
qed

lemma ReadImageData_reached:
  assumes hdr: "read_header fs filepath width0 height0 = Some (Inr (Go (isBinary, width, height, f)))"
      and size: "image_bytes width height = Inr nbytes"
      and triples: "nbytes mod 3 = 0"
  shows "\<exists>out. length out = nat nbytes
           \<and> (Indeterminate \<notin> set (fst (read_samples isBinary nbytes f (replicate (nat nbytes) Indeterminate)))
                \<longrightarrow> Indeterminate \<notin> set out)
           \<and> ReadImageData fs filepath width0 height0 data0
               = Some (Inr (if failbit (snd (read_samples isBinary nbytes f (replicate (nat nbytes) Indeterminate)))
                            then (width, height, None, [ErrorWhileReadingPPM])
                            else (width, height, Some out, [])))"
proof -
  from image_bytes_triples [OF size triples] obtain m where
    wh: "nbytes = int (3 * m)" "3 * m < UINT_MOD"
    by blast
  let ?m = "m"
  let ?r = "read_samples isBinary nbytes f (replicate (nat nbytes) Indeterminate)"
  have n: "nat nbytes = 3 * ?m" using wh(1) by simp
  have len: "length (fst ?r) = 3 * ?m"
    using read_samples_length [of "replicate (nat nbytes) Indeterminate" nbytes isBinary f] n by simp
  from flip_loop_reverses_triples [OF len wh(2)] obtain out where
    out: "flip_loop 0 (int (3 * ?m)) (to_uint (int (3 * ?m) - 1)) (fst ?r)
            (replicate (3 * ?m) Indeterminate) = Inr out" "length out = 3 * ?m"
    by blast
  have keep: "Indeterminate \<notin> set (fst ?r) \<Longrightarrow> Indeterminate \<notin> set out"
    using flip_loop_keeps_values [OF len wh(2) _ out(1)] by simp
  have "ReadImageData fs filepath width0 height0 data0
          = Some (Inr (if failbit (snd ?r) then (width, height, None, [ErrorWhileReadingPPM])
                       else (width, height, Some out, [])))"
    using hdr size out(1) wh(1) n
    by (simp add: ReadImageData_def ebind_def split_beta)
  with out(2) keep n show ?thesis by auto
qed

text \<open>
  The post-processing pass seen from outside the decoder: in a decode that
  succeeds, the three bytes of the input triple at byte offset \<open>i\<close> are, in the
  same order, the three bytes of the output at offset \<open>nbytes - 3 - i\<close>.
\<close>

lemma ReadImageData_output_index:
  assumes hdr: "read_header fs filepath width0 height0 = Some (Inr (Go (isBinary, width, height, f)))"
      and size: "image_bytes width height = Inr nbytes"
      and triples: "nbytes mod 3 = 0"
      and good: "\<not> failbit (snd (read_samples isBinary nbytes f (replicate (nat nbytes) Indeterminate)))"
  shows "\<exists>out. ReadImageData fs filepath width0 height0 data0 = Some (Inr (width, height, Some out, []))
           \<and> length out = nat nbytes
           \<and> (\<forall>i k. i mod 3 = 0 \<longrightarrow> i < nat nbytes \<longrightarrow> k < 3 \<longrightarrow>
                 out ! (nat nbytes - 3 - i + k)
                   = fst (read_samples isBinary nbytes f (replicate (nat nbytes) Indeterminate)) ! (i + k))"
proof -
  from image_bytes_triples [OF size triples] obtain m where
    wh: "nbytes = int (3 * m)" "3 * m < UINT_MOD"
    by blast
  let ?r = "read_samples isBinary nbytes f (replicate (nat nbytes) Indeterminate)"
  have n: "nat nbytes = 3 * m" using wh(1) by simp
  have len: "length (fst ?r) = 3 * m"
    using read_samples_length [of "replicate (nat nbytes) Indeterminate" nbytes isBinary f] n by simp
  from flip_loop_reverses_triples [OF len wh(2)] obtain out where
    out: "flip_loop 0 (int (3 * m)) (to_uint (int (3 * m) - 1)) (fst ?r)
            (replicate (3 * m) Indeterminate) = Inr out" "length out = 3 * m"
      "\<And>t k. t < m \<Longrightarrow> k < 3 \<Longrightarrow> out ! (3 * t + k) = fst ?r ! (3 * (m - 1 - t) + k)"
    by blast
  have res: "ReadImageData fs filepath width0 height0 data0 = Some (Inr (width, height, Some out, []))"
    using hdr size out(1) wh(1) n good
    by (simp add: ReadImageData_def ebind_def split_beta)
  have "out ! (nat nbytes - 3 - i + k) = fst ?r ! (i + k)"
    if i: "i mod 3 = 0" "i < nat nbytes" and k: "k < 3" for i k
  proof -
    from i(1) obtain s where s: "i = 3 * s" by auto
    with i(2) n have sm: "s < m" by simp
    define t where "t = m - 1 - s"
    have t: "t < m" "3 * t = nat nbytes - 3 - i" "3 * (m - 1 - t) = i"
      using sm s n by (simp_all add: t_def)
    from out(3) [OF t(1) k] t(2,3) show ?thesis by simp
  qed
  with res out(2) n show ?thesis by auto
qed

text \<open>
  With a number of bytes that is not a multiple of three the pass reads past
  \<^verbatim>\<open>copyData\<close> in its last round: the decode is the error \<open>OutOfBoundsAccess\<close>,
  whether or not the stream has failed.
\<close>

lemma flip_loop_error:
  "flip_loop i nbytes pos copyData data = Inl e \<Longrightarrow> e = OutOfBoundsAccess"
proof (induction i nbytes pos copyData data rule: flip_loop.induct)
  case (1 i nbytes pos copyData data)
  let ?ok = "0 \<le> i \<and> nat (i + 2) < length copyData \<and> pos < length data
               \<and> uint_sub pos 1 < length data \<and> uint_sub pos 2 < length data"
  show ?case
  proof (cases "i < nbytes")
    case False
    then have "flip_loop i nbytes pos copyData data = Inr data"
      by (subst flip_loop.simps) simp
    with "1.prems" show ?thesis by simp
  next
    case True
    show ?thesis
    proof (cases ?ok)
      case bad: False
      have "flip_loop i nbytes pos copyData data = Inl OutOfBoundsAccess"
        by (subst flip_loop.simps) (simp only: True bad if_True if_False)
      with "1.prems" show ?thesis by simp
    next
      case ok: True
      let ?data = "data[pos := copyData ! nat (i + 2), uint_sub pos 1 := copyData ! nat (i + 1),
                        uint_sub pos 2 := copyData ! nat i]"
      have "flip_loop i nbytes pos copyData data
              = flip_loop (i + 3) nbytes (uint_sub pos 3) copyData ?data"
        by (subst flip_loop.simps) (simp only: True ok if_True simp_thms)
      with "1.IH" [OF True ok] "1.prems" show ?thesis by simp
    qed
  qed
qed

lemma ReadImageData_pass_past_buffer:
  assumes hdr: "read_header fs filepath width0 height0 = Some (Inr (Go (isBinary, width, height, f)))"
      and size: "image_bytes width height = Inr nbytes"
      and odd: "nbytes mod 3 \<noteq> 0"
  shows "ReadImageData fs filepath width0 height0 data0 = Some (Inl OutOfBoundsAccess)"
proof -
  let ?r = "read_samples isBinary nbytes f (replicate (nat nbytes) Indeterminate)"
  let ?p = "flip_loop 0 nbytes (to_uint (nbytes - 1)) (fst ?r) (replicate (nat nbytes) Indeterminate)"
  from image_bytes_Inr [OF size] have n: "0 \<le> nbytes" by blast
  have "?p = Inl OutOfBoundsAccess"
  proof (cases ?p)
    case (Inl e)
    with flip_loop_error [OF Inl] show ?thesis by simp
  next
    case (Inr out)
    have "nbytes mod 3 = 0"
      using n by (intro flip_loop_Inr_multiple [OF Inr]) (simp_all add: read_samples_length)
    with odd show ?thesis by simp
  qed
  with hdr size show ?thesis
    by (simp add: ReadImageData_def ebind_def split_beta)
qed

lemma ReadImageData_direct_reached:
  assumes hdr: "read_header fs filepath width0 height0 = Some (Inr (Go (isBinary, width, height, f)))"
      and size: "image_bytes width height = Inr nbytes"
  shows "ReadImageData_direct fs filepath width0 height0 data0
           = Some (Inr (if failbit (snd (read_samples isBinary nbytes f (replicate (nat nbytes) Indeterminate)))
                        then (width, height, None, [ErrorWhileReadingPPM])
                        else (width, height,
                              Some (fst (read_samples isBinary nbytes f (replicate (nat nbytes) Indeterminate))), [])))"
  using hdr size by (simp add: ReadImageData_direct_def ebind_def split_beta)

lemma ReadImageData_success:
  assumes "ReadImageData fs filepath width0 height0 None = Some (Inr (width, height, Some buf, cerr))"
  shows "\<exists>w h. width = Val w \<and> height = Val h \<and> int (length buf) = int_mul (int_mul w h) 3
               \<and> Indeterminate \<notin> set buf"
proof -
  from assms obtain isBinary wd ht f where
    hdr: "read_header fs filepath width0 height0 = Some (Inr (Go (isBinary, wd, ht, f)))"
    by (auto simp: ReadImageData_def split: option.splits sum.splits early.splits)
  from assms hdr obtain nbytes where size: "image_bytes wd ht = Inr nbytes"
    by (cases "image_bytes wd ht") (auto simp: ReadImageData_def ebind_def)
  let ?r = "read_samples isBinary nbytes f (replicate (nat nbytes) Indeterminate)"
  from image_bytes_Inr [OF size] obtain w h where
    wh: "wd = Val w" "ht = Val h" "nbytes = int_mul (int_mul w h) 3" "0 \<le> nbytes"
    by blast
  from assms hdr size obtain out0 where
    fl: "flip_loop 0 nbytes (to_uint (nbytes - 1)) (fst ?r) (replicate (nat nbytes) Indeterminate) = Inr out0"
    by (cases "flip_loop 0 nbytes (to_uint (nbytes - 1)) (fst ?r) (replicate (nat nbytes) Indeterminate)")
       (auto simp: ReadImageData_def ebind_def split_beta)
  have triples: "nbytes mod 3 = 0"
    using wh(4) by (intro flip_loop_Inr_multiple [OF fl]) (simp_all add: read_samples_length)
  from ReadImageData_reached [OF hdr size triples, of None] assms obtain out where
    out: "length out = nat nbytes" "Indeterminate \<notin> set (fst ?r) \<longrightarrow> Indeterminate \<notin> set out"
      "\<not> failbit (snd ?r)" "width = wd" "height = ht" "buf = out"
    by (auto split: if_splits)
  with wh read_samples_good [OF out(3)] show ?thesis by auto
qed

lemma ReadImageData_direct_success:
  assumes "ReadImageData_direct fs filepath width0 height0 None = Some (Inr (width, height, Some buf, cerr))"
  shows "\<exists>w h. width = Val w \<and> height = Val h \<and> int (length buf) = int_mul (int_mul w h) 3
               \<and> Indeterminate \<notin> set buf"
proof -
  from assms obtain isBinary wd ht f where
    hdr: "read_header fs filepath width0 height0 = Some (Inr (Go (isBinary, wd, ht, f)))"
    by (auto simp: ReadImageData_direct_def split: option.splits sum.splits early.splits)
  from assms hdr obtain nbytes where size: "image_bytes wd ht = Inr nbytes"
    by (cases "image_bytes wd ht") (auto simp: ReadImageData_direct_def ebind_def)
  let ?r = "read_samples isBinary nbytes f (replicate (nat nbytes) Indeterminate)"
  from ReadImageData_direct_reached [OF hdr size, of None] assms have
    out: "\<not> failbit (snd ?r)" "width = wd" "height = ht" "buf = fst ?r"
    by (auto split: if_splits)
  from image_bytes_Inr [OF size] obtain w h where
    wh: "wd = Val w" "ht = Val h" "nbytes = int_mul (int_mul w h) 3" "0 \<le> nbytes"
    by blast
  moreover have "length (fst ?r) = nat nbytes"
    by (rule read_samples_length) simp
  ultimately show ?thesis using out read_samples_good [OF out(1)] by auto
qed

text \<open>
  Claim C9 says that a buffer the decoder returns has exactly
  \<open>3 * width * height\<close> bytes. The decoder allocates \<^verbatim>\<open>width * height * 3\<close> bytes,
  a product it computes in \<^verbatim>\<open>int\<close> and never checks. The header
  \<^verbatim>\<open>P3 65536 65536 255\<close> needs no sample at all: \<open>65536 * 65536\<close> is \<open>2 ^ 32\<close>,
  whose low 32 bits are zero, the decoder allocates no byte, reads no sample and
  returns the empty buffer with \<^verbatim>\<open>width\<close> and \<^verbatim>\<open>height\<close> both 65536. Both
  evolutions do.
\<close>

theorem ReadImageData_size_wraps_counterexample:
  "ReadImageData [''t.ppm'' \<mapsto> ''P3\<newline>65536 65536\<newline>255\<newline>''] ''t.ppm'' Indeterminate Indeterminate None
     = Some (Inr (Val 65536, Val 65536, Some [], []))
   \<and> ReadImageData_direct [''t.ppm'' \<mapsto> ''P3\<newline>65536 65536\<newline>255\<newline>''] ''t.ppm'' Indeterminate Indeterminate None
     = Some (Inr (Val 65536, Val 65536, Some [], []))
   \<and> int (length ([] :: buffer)) \<noteq> 3 * 65536 * 65536"
  by (simp add: file_stream_defs image_defs)

text \<open>
  Claim C9 as the code has it, for both evolutions of the decoder, called as
  \<^verbatim>\<open>LoadPPM\<close> calls them (with a null \<^verbatim>\<open>data\<close>). Whenever the decoder returns a
  buffer, \<^verbatim>\<open>width\<close> and \<^verbatim>\<open>height\<close> have been read, the buffer has exactly as many
  bytes as the \<^verbatim>\<open>int\<close> product \<^verbatim>\<open>width * height * 3\<close> comes to, which is
  \<open>3 * width * height\<close> whenever that number is an \<^verbatim>\<open>int\<close>, and every byte of the
  buffer was read from the file. And whenever the decoder gets as far as
  allocating the buffer and the stream is in its fail state once the samples have
  been read, the decoder without the post-processing pass returns a null \<^verbatim>\<open>data\<close>
  and writes the diagnostic, whatever part of the buffer had been filled; so does
  the decoder with the pass when the number of bytes is a multiple of three, as
  it is whenever \<open>3 * width * height\<close> is an \<^verbatim>\<open>int\<close>. (On another number of bytes
  the pass reads past its buffer, and nothing is said about it here.)
\<close>

theorem ReadImageData_never_partial:
  "(ReadImageData fs filepath width0 height0 None = Some (Inr (width, height, Some buf, cerr))
      \<longrightarrow> (\<exists>w h. width = Val w \<and> height = Val h
                  \<and> int (length buf) = int_mul (int_mul w h) 3
                  \<and> (INT_MIN \<le> 3 * w * h \<and> 3 * w * h \<le> INT_MAX \<longrightarrow> int (length buf) = 3 * w * h)
                  \<and> Indeterminate \<notin> set buf))
   \<and> (ReadImageData_direct fs filepath width0 height0 None = Some (Inr (width, height, Some buf, cerr))
      \<longrightarrow> (\<exists>w h. width = Val w \<and> height = Val h
                  \<and> int (length buf) = int_mul (int_mul w h) 3
                  \<and> (INT_MIN \<le> 3 * w * h \<and> 3 * w * h \<le> INT_MAX \<longrightarrow> int (length buf) = 3 * w * h)
                  \<and> Indeterminate \<notin> set buf))
   \<and> (read_header fs filepath width0 height0 = Some (Inr (Go (isBinary, width, height, f)))
        \<and> image_bytes width height = Inr nbytes
        \<and> failbit (snd (read_samples isBinary nbytes f (replicate (nat nbytes) Indeterminate)))
      \<longrightarrow> ReadImageData_direct fs filepath width0 height0 data0
             = Some (Inr (width, height, None, [ErrorWhileReadingPPM]))
          \<and> (nbytes mod 3 = 0
              \<longrightarrow> ReadImageData fs filepath width0 height0 data0
                    = Some (Inr (width, height, None, [ErrorWhileReadingPPM]))))"
proof (intro conjI impI)
  assume "ReadImageData fs filepath width0 height0 None = Some (Inr (width, height, Some buf, cerr))"
  from ReadImageData_success [OF this] obtain w h where
    "width = Val w" "height = Val h" "int (length buf) = int_mul (int_mul w h) 3"
    "Indeterminate \<notin> set buf"
    by blast
  then show "\<exists>w h. width = Val w \<and> height = Val h
               \<and> int (length buf) = int_mul (int_mul w h) 3
               \<and> (INT_MIN \<le> 3 * w * h \<and> 3 * w * h \<le> INT_MAX \<longrightarrow> int (length buf) = 3 * w * h)
               \<and> Indeterminate \<notin> set buf"
    using int_mul_fits [of w h] by auto
next
  assume "ReadImageData_direct fs filepath width0 height0 None = Some (Inr (width, height, Some buf, cerr))"
  from ReadImageData_direct_success [OF this] obtain w h where
    "width = Val w" "height = Val h" "int (length buf) = int_mul (int_mul w h) 3"
    "Indeterminate \<notin> set buf"
    by blast
  then show "\<exists>w h. width = Val w \<and> height = Val h
               \<and> int (length buf) = int_mul (int_mul w h) 3
               \<and> (INT_MIN \<le> 3 * w * h \<and> 3 * w * h \<le> INT_MAX \<longrightarrow> int (length buf) = 3 * w * h)
               \<and> Indeterminate \<notin> set buf"
    using int_mul_fits [of w h] by auto
next
  assume a: "read_header fs filepath width0 height0 = Some (Inr (Go (isBinary, width, height, f)))
        \<and> image_bytes width height = Inr nbytes
        \<and> failbit (snd (read_samples isBinary nbytes f (replicate (nat nbytes) Indeterminate)))"
  then show "ReadImageData_direct fs filepath width0 height0 data0
             = Some (Inr (width, height, None, [ErrorWhileReadingPPM]))"
    using ReadImageData_direct_reached [of fs filepath width0 height0 isBinary width height f nbytes data0]
    by auto
next
  assume a: "read_header fs filepath width0 height0 = Some (Inr (Go (isBinary, width, height, f)))
        \<and> image_bytes width height = Inr nbytes
        \<and> failbit (snd (read_samples isBinary nbytes f (replicate (nat nbytes) Indeterminate)))"
    and triples: "nbytes mod 3 = 0"
  then show "ReadImageData fs filepath width0 height0 data0
             = Some (Inr (width, height, None, [ErrorWhileReadingPPM]))"
    using ReadImageData_reached [of fs filepath width0 height0 isBinary width height f nbytes data0]
    by auto
qed

text \<open>
  Claim C9 on two files: a complete binary image of 2 by 2 pixels, whose buffer of
  \<open>3 * 2 * 2\<close> bytes is returned by either evolution, and the same image with its
  last byte missing, for which either evolution returns a null \<^verbatim>\<open>data\<close>.
\<close>

theorem ReadImageData_never_partial_witness:
  "ReadImageData [''t.ppm'' \<mapsto> ''P6\<newline>2 2\<newline>255\<newline>abcdefghijkl''] ''t.ppm'' Indeterminate Indeterminate None
     = Some (Inr (Val 2, Val 2, Some (map Val ''jklghidefabc''), []))
   \<and> int (length (map Val ''jklghidefabc'' :: buffer)) = 3 * 2 * 2
   \<and> Indeterminate \<notin> set (map Val ''jklghidefabc'')
   \<and> ReadImageData_direct [''t.ppm'' \<mapsto> ''P6\<newline>2 2\<newline>255\<newline>abcdefghijkl''] ''t.ppm'' Indeterminate Indeterminate None
     = Some (Inr (Val 2, Val 2, Some (map Val ''abcdefghijkl''), []))
   \<and> int (length (map Val ''abcdefghijkl'' :: buffer)) = 3 * 2 * 2
   \<and> Indeterminate \<notin> set (map Val ''abcdefghijkl'')
   \<and> ReadImageData [''t.ppm'' \<mapsto> ''P6\<newline>2 2\<newline>255\<newline>abcdefghijk''] ''t.ppm'' Indeterminate Indeterminate None
     = Some (Inr (Val 2, Val 2, None, [ErrorWhileReadingPPM]))
   \<and> ReadImageData_direct [''t.ppm'' \<mapsto> ''P6\<newline>2 2\<newline>255\<newline>abcdefghijk''] ''t.ppm'' Indeterminate Indeterminate None
     = Some (Inr (Val 2, Val 2, None, [ErrorWhileReadingPPM]))"
proof -
  let ?f = "\<lparr>ahead = ''abcdefghijk'', behind = rev ''P6\<newline>2 2\<newline>255\<newline>'', failbit = False\<rparr>"
  have good: "ReadImageData [''t.ppm'' \<mapsto> ''P6\<newline>2 2\<newline>255\<newline>abcdefghijkl''] ''t.ppm'' Indeterminate Indeterminate None
                = Some (Inr (Val 2, Val 2, Some (map Val ''jklghidefabc''), []))"
    by (simp add: file_stream_defs image_defs) (simp add: eval_nat_numeral)
  have good2: "ReadImageData_direct [''t.ppm'' \<mapsto> ''P6\<newline>2 2\<newline>255\<newline>abcdefghijkl''] ''t.ppm'' Indeterminate Indeterminate None
                = Some (Inr (Val 2, Val 2, Some (map Val ''abcdefghijkl''), []))"
    by (simp add: file_stream_defs image_defs)
  have hdr: "read_header [''t.ppm'' \<mapsto> ''P6\<newline>2 2\<newline>255\<newline>abcdefghijk''] ''t.ppm'' Indeterminate Indeterminate
               = Some (Inr (Go (True, Val 2, Val 2, ?f)))"
    by (simp add: file_stream_defs image_defs)
  have size: "image_bytes (Val 2) (Val 2) = Inr 12"
    by (simp add: image_defs)
  have bad: "failbit (snd (read_samples True 12 ?f (replicate (nat 12) Indeterminate)))"
    by (simp add: file_stream_defs image_defs)
  have triples: "(12 :: int) mod 3 = 0"
    by simp
  note main = ReadImageData_never_partial
  from main [THEN conjunct1, rule_format, OF good] obtain w h :: int where
    "Val 2 = Val w" "Val 2 = Val h"
    "INT_MIN \<le> 3 * w * h \<and> 3 * w * h \<le> INT_MAX
       \<longrightarrow> int (length (map Val ''jklghidefabc'' :: buffer)) = 3 * w * h"
    "Indeterminate \<notin> set (map Val ''jklghidefabc'')"
    by blast
  then have full: "int (length (map Val ''jklghidefabc'' :: buffer)) = 3 * 2 * 2
                   \<and> Indeterminate \<notin> set (map Val ''jklghidefabc'')"
    by (simp add: INT_MIN_def INT_MAX_def)
  from main [THEN conjunct2, THEN conjunct1, rule_format, OF good2] obtain w h :: int where
    "Val 2 = Val w" "Val 2 = Val h"
    "INT_MIN \<le> 3 * w * h \<and> 3 * w * h \<le> INT_MAX
       \<longrightarrow> int (length (map Val ''abcdefghijkl'' :: buffer)) = 3 * w * h"
    "Indeterminate \<notin> set (map Val ''abcdefghijkl'')"
    by blast
  then have full2: "int (length (map Val ''abcdefghijkl'' :: buffer)) = 3 * 2 * 2
                    \<and> Indeterminate \<notin> set (map Val ''abcdefghijkl'')"
    by (simp add: INT_MIN_def INT_MAX_def)
  from main [THEN conjunct2, THEN conjunct2, rule_format, OF conjI [OF hdr conjI [OF size bad]], of None]
    triples
  have null: "ReadImageData_direct [''t.ppm'' \<mapsto> ''P6\<newline>2 2\<newline>255\<newline>abcdefghijk''] ''t.ppm'' Indeterminate Indeterminate None
                = Some (Inr (Val 2, Val 2, None, [ErrorWhileReadingPPM]))
              \<and> ReadImageData [''t.ppm'' \<mapsto> ''P6\<newline>2 2\<newline>255\<newline>abcdefghijk''] ''t.ppm'' Indeterminate Indeterminate None
                = Some (Inr (Val 2, Val 2, None, [ErrorWhileReadingPPM]))"
    by blast
  from good good2 full full2 null show ?thesis by blast
qed

end
